theory Spec2Isabelle
  imports Complex_Main "HOL-Library.AList"
begin

section \<open>Conventions\<close>

text \<open>
  A float is a real number: finite and without rounding. Where a result depends on the
  range of the finite floats (the cash and the equity of a portfolio, the sums and the
  quotient of the profit factor) or on a division by zero of numpy scalars, the value is
  of the type \<open>npfloat\<close>, which adds the IEEE special values. A \<open>datetime\<close> is a point on
  an integer time line, in seconds. A raised exception is the \<open>Inl\<close> branch of a sum.
\<close>

type_synonym datetime = int

datatype error =
    ValueError string
  | UnboundLocalError string
  | ZeroDivisionError
  | IndexError
  | KeyError string

section \<open>Floats\<close>

datatype npfloat = Finite real | PosInf | NegInf | NaN

text \<open>
  The largest finite double. A result of float arithmetic beyond it is an infinity (the
  rounding of the results within it is left out).
\<close>

definition max_float :: real where
  "max_float = 2 ^ 1024 - 2 ^ 971"

definition to_float :: "real \<Rightarrow> npfloat" where
  "to_float x =
     (if x > max_float then PosInf else if x < - max_float then NegInf else Finite x)"

text \<open>Addition, subtraction and the comparisons \<open>>=\<close> and \<open>==\<close> of floats.\<close>

fun float_neg :: "npfloat \<Rightarrow> npfloat" where
  "float_neg (Finite x) = Finite (- x)"
| "float_neg PosInf = NegInf"
| "float_neg NegInf = PosInf"
| "float_neg NaN = NaN"

fun float_add :: "npfloat \<Rightarrow> npfloat \<Rightarrow> npfloat" where
  "float_add NaN b = NaN"
| "float_add a NaN = NaN"
| "float_add PosInf NegInf = NaN"
| "float_add NegInf PosInf = NaN"
| "float_add PosInf b = PosInf"
| "float_add NegInf b = NegInf"
| "float_add a PosInf = PosInf"
| "float_add a NegInf = NegInf"
| "float_add (Finite x) (Finite y) = to_float (x + y)"

definition float_sub :: "npfloat \<Rightarrow> npfloat \<Rightarrow> npfloat" where
  "float_sub a b = float_add a (float_neg b)"

fun float_ge :: "npfloat \<Rightarrow> npfloat \<Rightarrow> bool" where
  "float_ge NaN b = False"
| "float_ge a NaN = False"
| "float_ge PosInf b = True"
| "float_ge a NegInf = True"
| "float_ge a PosInf = False"
| "float_ge NegInf b = False"
| "float_ge (Finite x) (Finite y) = (x \<ge> y)"

fun float_eq :: "npfloat \<Rightarrow> npfloat \<Rightarrow> bool" where
  "float_eq NaN b = False"
| "float_eq a NaN = False"
| "float_eq a b = (a = b)"

text \<open>The finite values that arithmetic produces lie within the range.\<close>

definition in_range :: "npfloat \<Rightarrow> bool" where
  "in_range a = (case a of Finite x \<Rightarrow> \<bar>x\<bar> \<le> max_float | _ \<Rightarrow> True)"

text \<open>
  Division of numpy scalars does not raise: a zero divisor gives an infinity or NaN. Zero
  is taken as positive zero. \<open>np_divide\<close> is the quotient of two finite numbers before
  the range is looked at, \<open>float_divide\<close> the division of floats.
\<close>

definition np_divide :: "real \<Rightarrow> real \<Rightarrow> npfloat" where
  "np_divide a b =
     (if b \<noteq> 0 then Finite (a / b)
      else if a > 0 then PosInf
      else if a < 0 then NegInf
      else NaN)"

fun float_divide :: "npfloat \<Rightarrow> npfloat \<Rightarrow> npfloat" where
  "float_divide NaN b = NaN"
| "float_divide a NaN = NaN"
| "float_divide (Finite x) (Finite y) =
     (case np_divide x y of Finite q \<Rightarrow> to_float q | r \<Rightarrow> r)"
| "float_divide (Finite x) b = Finite 0"
| "float_divide PosInf (Finite y) = (if y < 0 then NegInf else PosInf)"
| "float_divide NegInf (Finite y) = (if y < 0 then PosInf else NegInf)"
| "float_divide a b = NaN"

fun np_abs :: "npfloat \<Rightarrow> npfloat" where
  "np_abs (Finite x) = Finite \<bar>x\<bar>"
| "np_abs PosInf = PosInf"
| "np_abs NegInf = PosInf"
| "np_abs NaN = NaN"

text \<open>The smaller of two values, neither of them NaN.\<close>

fun np_min2 :: "npfloat \<Rightarrow> npfloat \<Rightarrow> npfloat" where
  "np_min2 NegInf b = NegInf"
| "np_min2 a NegInf = NegInf"
| "np_min2 PosInf b = b"
| "np_min2 a PosInf = a"
| "np_min2 (Finite x) (Finite y) = Finite (min x y)"
| "np_min2 a b = a"

text \<open>
  \<open>Series.min()\<close>: NaN entries are skipped; the minimum of no entries is NaN.
\<close>

fun series_min :: "npfloat list \<Rightarrow> npfloat" where
  "series_min [] = NaN"
| "series_min (NaN # xs) = series_min xs"
| "series_min (x # xs) = (case series_min xs of NaN \<Rightarrow> x | m \<Rightarrow> np_min2 x m)"

section \<open>Position (backtester/position.py)\<close>

record position =
  symbol :: string
  direction :: string
  entry_price :: real
  size_pos :: real
  timestamp :: datetime
  exit_price :: "real option"
  exit_timestamp :: "datetime option"
  pnl :: "real option"

text \<open>\<open>Position.__init__\<close>\<close>

definition Position :: "string \<Rightarrow> string \<Rightarrow> real \<Rightarrow> real \<Rightarrow> datetime \<Rightarrow> position" where
  "Position sy di entry sz ts =
     \<lparr>symbol = sy, direction = di, entry_price = entry, size_pos = sz, timestamp = ts,
      exit_price = None, exit_timestamp = None, pnl = None\<rparr>"

text \<open>
  \<open>Position.calculate_pnl\<close> assigns \<open>self.pnl\<close> and returns it: the model returns the
  updated object together with the returned number. Every direction other than the
  string \<open>long\<close> takes the \<open>else\<close> branch.
\<close>

definition pnl_value :: "position \<Rightarrow> real \<Rightarrow> real" where
  "pnl_value self current_price =
     (if direction self = ''long''
      then (current_price - entry_price self) * size_pos self
      else (entry_price self - current_price) * size_pos self)"

definition calculate_pnl :: "position \<Rightarrow> real \<Rightarrow> position \<times> real" where
  "calculate_pnl self current_price =
     (let self' = self\<lparr>pnl := Some (pnl_value self current_price)\<rparr>
      in (self', the (pnl self')))"

text \<open>\<open>Position.close\<close>: two assignments, then \<open>calculate_pnl\<close> for its effect.\<close>

definition close :: "position \<Rightarrow> real \<Rightarrow> datetime \<Rightarrow> position" where
  "close self exit_price' ts =
     fst (calculate_pnl (self\<lparr>exit_price := Some exit_price', exit_timestamp := Some ts\<rparr>)
            exit_price')"

text \<open>\<open>Position.get_value\<close>: the product is a float, an infinity when it overflows.\<close>

definition get_value :: "position \<Rightarrow> real \<Rightarrow> npfloat" where
  "get_value self current_price = to_float (size_pos self * current_price)"

definition get_unrealized_pnl :: "position \<Rightarrow> real \<Rightarrow> position \<times> real" where
  "get_unrealized_pnl self current_price = calculate_pnl self current_price"

section \<open>Portfolio (backtester/portfolio.py)\<close>

text \<open>One entry of \<open>Portfolio.trade_history\<close> (the dict built by \<open>_record_trade\<close>).\<close>

record trade =
  t_timestamp :: datetime
  t_symbol :: string
  t_action :: string
  t_direction :: string
  t_price :: "real option"
  t_size :: real
  t_pnl :: "real option"
  t_cash :: npfloat
  t_equity :: npfloat

text \<open>
  The dict \<open>positions\<close> is an association list in insertion order; assignment to a key
  is \<^const>\<open>AList.update\<close> (an existing key keeps its place), \<open>del\<close> is
  \<^const>\<open>AList.delete\<close>. The dict and the closed log hold the position objects by value:
  a reference that a caller keeps to an object does not follow the \<open>pnl\<close> that
  \<open>update_equity\<close> stores in it, and no code reads that field through such a reference
  before assigning it. Cash and equity are floats: the notional of a position can
  overflow, and cash with it.
\<close>

record portfolio =
  initial_capital :: real
  cash :: npfloat
  equity :: npfloat
  positions :: "(string \<times> position) list"
  closed_positions :: "position list"
  trade_history :: "trade list"

definition Portfolio :: "real \<Rightarrow> portfolio" where
  "Portfolio c =
     \<lparr>initial_capital = c, cash = to_float c, equity = to_float c, positions = [],
      closed_positions = [], trade_history = []\<rparr>"

definition has_sufficient_funds :: "portfolio \<Rightarrow> npfloat \<Rightarrow> bool" where
  "has_sufficient_funds self required_margin \<longleftrightarrow> float_ge (cash self) required_margin"

text \<open>
  \<open>Portfolio.update_equity\<close>: the generator calls \<open>get_unrealized_pnl(pos.entry_price)\<close>
  on every open position, which also stores the number in that position's \<open>pnl\<close>.
\<close>

definition update_equity :: "portfolio \<Rightarrow> portfolio" where
  "update_equity self =
     (let marked = map (\<lambda>(k, pos). (k, get_unrealized_pnl pos (entry_price pos)))
                       (positions self);
          unrealized_pnl = sum_list (map (\<lambda>(k, r). snd r) marked)
      in self\<lparr>positions := map (\<lambda>(k, r). (k, fst r)) marked,
              equity := float_add (cash self) (to_float unrealized_pnl)\<rparr>)"

definition record_trade :: "portfolio \<Rightarrow> position \<Rightarrow> string \<Rightarrow> portfolio" where
  "record_trade self pos action =
     self\<lparr>trade_history := trade_history self @
       [\<lparr>t_timestamp = timestamp pos, t_symbol = symbol pos, t_action = action,
         t_direction = direction pos,
         t_price = (if action = ''open'' then Some (entry_price pos) else exit_price pos),
         t_size = size_pos pos,
         t_pnl = (if action = ''close'' then pnl pos else None),
         t_cash = cash self, t_equity = equity self\<rparr>]\<rparr>"

definition add_position :: "portfolio \<Rightarrow> position \<Rightarrow> error + portfolio" where
  "add_position self pos =
     (let margin = get_value pos (entry_price pos)
      in if \<not> has_sufficient_funds self margin
         then Inl (ValueError ''Insufficient funds to open position'')
         else
           (let s1 = self\<lparr>cash := float_sub (cash self) margin\<rparr>;
                s2 = s1\<lparr>positions := AList.update (symbol pos) pos (positions s1)\<rparr>;
                s3 = update_equity s2
            in Inr (record_trade s3 pos ''open'')))"

text \<open>\<open>datetime.now()\<close> is the extra argument \<open>now\<close>.\<close>

definition remove_position :: "portfolio \<Rightarrow> position \<Rightarrow> real \<Rightarrow> datetime \<Rightarrow> portfolio" where
  "remove_position self pos exit_price' now =
     (if symbol pos \<notin> set (map fst (positions self)) then self
      else
        (let pos' = close pos exit_price' now;
             s1 = self\<lparr>cash := float_add (cash self) (get_value pos' exit_price')\<rparr>;
             s2 = s1\<lparr>positions := AList.delete (symbol pos) (positions s1)\<rparr>;
             s3 = s2\<lparr>closed_positions := closed_positions s2 @ [pos']\<rparr>;
             s4 = update_equity s3
         in record_trade s4 pos' ''close''))"

text \<open>
  A caller's sequence of mutating operations on one portfolio object. \<open>add_position\<close>
  raises before its first assignment, so a raised call leaves the object as it was.
\<close>

datatype portfolio_op =
    AddPosition position
  | RemovePosition position real datetime
  | UpdateEquity

fun apply_op :: "portfolio \<Rightarrow> portfolio_op \<Rightarrow> portfolio" where
  "apply_op self (AddPosition pos) =
     (case add_position self pos of Inl e \<Rightarrow> self | Inr self' \<Rightarrow> self')"
| "apply_op self (RemovePosition pos x now) = remove_position self pos x now"
| "apply_op self UpdateEquity = update_equity self"

text \<open>
  What the invariant of the specification asks of a portfolio, given the latest price of
  every symbol: equity is cash plus the unrealized P&L of the open positions at those
  prices.
\<close>

definition marked_to_market :: "(string \<Rightarrow> real) \<Rightarrow> portfolio \<Rightarrow> npfloat" where
  "marked_to_market latest self =
     float_add (cash self)
       (to_float (sum_list (map (\<lambda>(k, pos). pnl_value pos (latest k)) (positions self))))"

section \<open>Backtester (backtester.py)\<close>

text \<open>
  The configuration keys the backtester reads, every one of them present. A row of the
  price data carries its index label and the columns the loop reads.
\<close>

record exit_rule =
  rule_type :: string
  rule_value :: real

record bt_config =
  cfg_commission_per_lot :: real
  cfg_allow_consecutive_trades :: "bool option"
  cfg_sizing_type :: string
  cfg_fixed_volume :: real
  cfg_risk_percentage :: real
  cfg_stop_loss_multiplier :: real
  cfg_stop_loss :: exit_rule
  cfg_take_profit :: exit_rule

record bar =
  b_index :: datetime
  b_close :: real
  b_high :: real
  b_low :: real
  b_ATR :: real
  b_long_signal :: bool
  b_short_signal :: bool

record bt_trade =
  tr_type :: string
  tr_entry :: real
  tr_exit :: real
  tr_volume :: real
  tr_pnl :: real
  tr_commission :: real
  tr_time :: datetime

record backtester =
  config :: bt_config
  initial_balance :: real
  balance :: real
  equity_curve :: "real list"
  trades :: "bt_trade list"
  commission_per_lot :: real
  allow_consecutive_trades :: bool
  last_trade_type :: "string option"

text \<open>\<open>Backtester.__init__\<close>; \<open>allow_consecutive_trades\<close> defaults to \<open>False\<close>.\<close>

definition Backtester :: "bt_config \<Rightarrow> real \<Rightarrow> backtester" where
  "Backtester cfg initial =
     \<lparr>config = cfg, initial_balance = initial, balance = initial, equity_curve = [],
      trades = [], commission_per_lot = cfg_commission_per_lot cfg,
      allow_consecutive_trades =
        (case cfg_allow_consecutive_trades cfg of None \<Rightarrow> False | Some b \<Rightarrow> b),
      last_trade_type = None\<rparr>"

text \<open>\<open>round(x, 2)\<close>: to the nearest hundredth, ties to the even neighbour.\<close>

definition round_half_even :: "real \<Rightarrow> int" where
  "round_half_even x =
     (let f = \<lfloor>x\<rfloor>; d = x - of_int f
      in if d < 1 / 2 then f else if d > 1 / 2 then f + 1 else if even f then f else f + 1)"

definition py_round2 :: "real \<Rightarrow> real" where
  "py_round2 x = of_int (round_half_even (x * 100)) / 100"

text \<open>
  \<open>calculate_position_size\<close>. The ATR of a row is a numpy scalar, so a zero stop distance
  gives an infinite or NaN size rather than an exception; the real-valued model stops there
  with \<open>NonFinite\<close>.
\<close>

datatype failure = Raised error | NonFinite

definition calculate_position_size :: "backtester \<Rightarrow> real \<Rightarrow> real \<Rightarrow> failure + real" where
  "calculate_position_size self price atr =
     (if cfg_sizing_type (config self) = ''fixed'' then Inr (cfg_fixed_volume (config self))
      else
        (let risk_amount = balance self * cfg_risk_percentage (config self);
             stop_loss_pips = atr * cfg_stop_loss_multiplier (config self);
             pip_value = 10
         in if stop_loss_pips * pip_value = 0 then Inl NonFinite
            else Inr (py_round2 (risk_amount / (stop_loss_pips * pip_value)))))"

text \<open>
  \<open>calculate_exit_prices\<close>: a level whose rule type is not \<open>fixed\<close> is never assigned,
  and the \<open>return\<close> then raises \<open>UnboundLocalError\<close>.
\<close>

definition calculate_exit_prices ::
  "backtester \<Rightarrow> real \<Rightarrow> real \<Rightarrow> string \<Rightarrow> failure + (real \<times> real)" where
  "calculate_exit_prices self entry atr position_type =
     (let sl_config = cfg_stop_loss (config self);
          tp_config = cfg_take_profit (config self);
          stop_loss =
            (if rule_type sl_config = ''fixed''
             then Some (if position_type = ''long'' then entry - atr * rule_value sl_config
                        else entry + atr * rule_value sl_config)
             else None);
          take_profit =
            (if rule_type tp_config = ''fixed''
             then Some (if position_type = ''long'' then entry + atr * rule_value tp_config
                        else entry - atr * rule_value tp_config)
             else None)
      in case stop_loss of
           None \<Rightarrow> Inl (Raised (UnboundLocalError ''stop_loss''))
         | Some sl \<Rightarrow>
             (case take_profit of
                None \<Rightarrow> Inl (Raised (UnboundLocalError ''take_profit''))
              | Some tp \<Rightarrow> Inr (sl, tp)))"

definition calculate_commission :: "backtester \<Rightarrow> real \<Rightarrow> real" where
  "calculate_commission self volume = volume * commission_per_lot self"

text \<open>
  The state of the loop of \<open>run_backtest\<close>: the object and the local variables
  \<open>position\<close>, \<open>entry_price\<close>, \<open>volume\<close>, \<open>stop_loss\<close>, \<open>take_profit\<close>.
\<close>

record loop_state =
  bt_self :: backtester
  bt_position :: "string option"
  bt_entry_price :: real
  bt_volume :: real
  bt_stop_loss :: real
  bt_take_profit :: real

text \<open>
  The statements of a triggered exit, which the long and the short branch share: the
  commission, the balance, \<open>last_trade_type\<close>, \<open>position = None\<close> and the trade record.
\<close>

definition close_trade :: "loop_state \<Rightarrow> bar \<Rightarrow> string \<Rightarrow> real \<Rightarrow> real \<Rightarrow> loop_state" where
  "close_trade s row ty exit_price' pnl' =
     (let self = bt_self s;
          commission = calculate_commission self (bt_volume s);
          self1 = self\<lparr>balance := balance self + (pnl' - commission)\<rparr>;
          self2 = self1\<lparr>last_trade_type := Some ty\<rparr>;
          self3 = self2\<lparr>trades := trades self2 @
                    [\<lparr>tr_type = ty, tr_entry = bt_entry_price s, tr_exit = exit_price',
                      tr_volume = bt_volume s, tr_pnl = pnl', tr_commission = commission,
                      tr_time = b_index row\<rparr>]\<rparr>
      in s\<lparr>bt_self := self3, bt_position := None\<rparr>)"

text \<open>
  First half of the loop body (\<open>if position:\<close>): the equity sample, then the stop-loss and
  take-profit test of the row.
\<close>

definition check_exit :: "loop_state \<Rightarrow> bar \<Rightarrow> loop_state" where
  "check_exit s row =
     (case bt_position s of
        None \<Rightarrow> s
      | Some p \<Rightarrow>
         (let self = bt_self s;
              unrealized_pnl =
                (if p = ''long''
                 then (b_close row - bt_entry_price s) * bt_volume s * 100000
                 else (bt_entry_price s - b_close row) * bt_volume s * 100000);
              current_equity = balance self + unrealized_pnl;
              s1 = s\<lparr>bt_self := self\<lparr>equity_curve := equity_curve self @ [current_equity]\<rparr>\<rparr>
          in if p = ''long''
             then
               (if b_low row \<le> bt_stop_loss s \<or> b_high row \<ge> bt_take_profit s
                then
                  (let exit_price' =
                         (if b_low row \<le> bt_stop_loss s then bt_stop_loss s
                          else bt_take_profit s);
                       pnl' = (exit_price' - bt_entry_price s) * bt_volume s * 100000
                   in close_trade s1 row ''long'' exit_price' pnl')
                else s1)
             else
               (if b_high row \<ge> bt_stop_loss s \<or> b_low row \<le> bt_take_profit s
                then
                  (let exit_price' =
                         (if b_high row \<ge> bt_stop_loss s then bt_stop_loss s
                          else bt_take_profit s);
                       pnl' = (bt_entry_price s - exit_price') * bt_volume s * 100000
                   in close_trade s1 row ''short'' exit_price' pnl')
                else s1)))"

text \<open>
  The statements of an entry, which the long and the short branch share: the size, the
  entry price, the two levels and \<open>position\<close>.
\<close>

definition open_trade :: "loop_state \<Rightarrow> bar \<Rightarrow> string \<Rightarrow> failure + loop_state" where
  "open_trade s row ty =
     (case calculate_position_size (bt_self s) (b_close row) (b_ATR row) of
        Inl e \<Rightarrow> Inl e
      | Inr volume \<Rightarrow>
         (let entry = b_close row
          in case calculate_exit_prices (bt_self s) entry (b_ATR row) ty of
               Inl e \<Rightarrow> Inl e
             | Inr (sl, tp) \<Rightarrow>
                 Inr (s\<lparr>bt_volume := volume, bt_entry_price := entry, bt_stop_loss := sl,
                        bt_take_profit := tp, bt_position := Some ty\<rparr>)))"

text \<open>Second half of the loop body (\<open>if not position:\<close>): a new entry at the close.\<close>

definition process_signal :: "loop_state \<Rightarrow> bar \<Rightarrow> failure + loop_state" where
  "process_signal s row =
     (case bt_position s of
        Some p \<Rightarrow> Inr s
      | None \<Rightarrow>
         (let self = bt_self s;
              can_open_long = (b_long_signal row \<and>
                 (allow_consecutive_trades self \<or> last_trade_type self \<noteq> Some ''long''));
              can_open_short = (b_short_signal row \<and>
                 (allow_consecutive_trades self \<or> last_trade_type self \<noteq> Some ''short''))
          in if can_open_long then open_trade s row ''long''
             else if can_open_short then open_trade s row ''short''
             else Inr s))"

definition backtest_row :: "loop_state \<Rightarrow> bar \<Rightarrow> failure + loop_state" where
  "backtest_row s row = process_signal (check_exit s row) row"

fun backtest_rows :: "loop_state \<Rightarrow> bar list \<Rightarrow> failure + loop_state" where
  "backtest_rows s [] = Inr s"
| "backtest_rows s (row # rows) =
     (case backtest_row s row of Inl e \<Rightarrow> Inl e | Inr s' \<Rightarrow> backtest_rows s' rows)"

definition run_backtest :: "backtester \<Rightarrow> bar list \<Rightarrow> failure + backtester" where
  "run_backtest self data =
     (case backtest_rows
             \<lparr>bt_self = self, bt_position = None, bt_entry_price = 0, bt_volume = 0,
              bt_stop_loss = 0, bt_take_profit = 0\<rparr> data of
        Inl e \<Rightarrow> Inl e
      | Inr s \<Rightarrow> Inr (bt_self s))"

text \<open>
  The drawdown series of both implementations: each sample against the running maximum
  of the samples up to it.
\<close>

fun cummax_from :: "real \<Rightarrow> real list \<Rightarrow> real list" where
  "cummax_from m [] = []"
| "cummax_from m (x # xs) = max m x # cummax_from (max m x) xs"

fun cummax :: "real list \<Rightarrow> real list" where
  "cummax [] = []"
| "cummax (x # xs) = x # cummax_from x xs"

definition drawdown_series :: "real list \<Rightarrow> npfloat list" where
  "drawdown_series curve = map (\<lambda>(e, m). np_divide (e - m) m) (zip curve (cummax curve))"

text \<open>\<open>Backtester.calculate_max_drawdown\<close> returns the minimum itself.\<close>

definition calculate_max_drawdown :: "backtester \<Rightarrow> npfloat" where
  "calculate_max_drawdown self = series_min (drawdown_series (equity_curve self))"

section \<open>PerformanceAnalyzer (backtester/performance.py)\<close>

text \<open>\<open>_calculate_max_drawdown\<close> returns the absolute value of the minimum.\<close>

definition calculate_max_drawdown_pa :: "real list \<Rightarrow> npfloat" where
  "calculate_max_drawdown_pa equity_curve' = np_abs (series_min (drawdown_series equity_curve'))"

text \<open>
  One entry of the trade history handed to \<open>calculate\<close> (the dict built by
  \<open>BacktestEngine._record_trade\<close>). In the data frame made of the history, the \<open>pnl\<close>
  column is a float column in which the entries without a number are NaN; \<open>None\<close> stands
  for them. A history without any number in that column gives an object column instead:
  no entry passes a comparison, and the sum of no entries is the integer 0.
\<close>

record event =
  ev_timestamp :: datetime
  ev_symbol :: string
  ev_direction :: string
  ev_action :: string
  ev_price :: "real option"
  ev_size :: real
  ev_pnl :: "real option"
  ev_equity :: real

text \<open>The numbers of the \<open>pnl\<close> column that pass a comparison; NaN passes none.\<close>

definition pnl_where :: "(real \<Rightarrow> bool) \<Rightarrow> event list \<Rightarrow> real list" where
  "pnl_where P trades_df = filter P (List.map_filter ev_pnl trades_df)"

text \<open>
  \<open>_calculate_profit_factor\<close>. On a float column the two sums are numpy scalars, and
  their quotient never raises. On an object column both sums are the integer 0, and
  \<open>0 / 0\<close> raises \<open>ZeroDivisionError\<close>. A frame without rows has no \<open>pnl\<close> column.
\<close>

definition calculate_profit_factor :: "event list \<Rightarrow> error + npfloat" where
  "calculate_profit_factor trades_df =
     (if trades_df = [] then Inl (KeyError ''pnl'')
      else if list_all (\<lambda>e. ev_pnl e = None) trades_df then Inl ZeroDivisionError
      else
        (let profits = pnl_where (\<lambda>p. p > 0) trades_df;
             losses = pnl_where (\<lambda>p. p < 0) trades_df
         in Inr (float_divide (to_float (sum_list profits))
                   (to_float (sum_list (map abs losses))))))"

text \<open>
  \<open>_calculate_avg_trade_duration\<close>: for every \<open>close\<close> row, the hours between its
  timestamp and the timestamp of the first \<open>open\<close> row of the frame; \<open>iloc[0]\<close> raises
  \<open>IndexError\<close> when there is no \<open>open\<close> row. The mean of no durations is NaN.
\<close>

definition calculate_avg_trade_duration :: "event list \<Rightarrow> error + npfloat" where
  "calculate_avg_trade_duration trades_df =
     (let closes = filter (\<lambda>e. ev_action e = ''close'') trades_df;
          opens = filter (\<lambda>e. ev_action e = ''open'') trades_df
      in case closes of
           [] \<Rightarrow> Inr NaN
         | c # cs \<Rightarrow>
            (case opens of
               [] \<Rightarrow> Inl IndexError
             | first_open # os \<Rightarrow>
                 (let trade_durations =
                        map (\<lambda>e. real_of_int (ev_timestamp e - ev_timestamp first_open) / 3600)
                          closes
                  in Inr (Finite (sum_list trade_durations / real (length trade_durations))))))"

text \<open>
  \<open>calculate\<close>, without the Sharpe, Sortino and Calmar ratios (floating-point statistics
  of numpy scalars, which do not raise). An empty history gives the empty dict, here
  \<open>None\<close>. The statements are in the order of the source: the average duration, then the
  profit factor, which takes the place of the guarded quotient bound to \<open>profit_factor\<close>
  earlier.
\<close>

record metrics =
  m_total_trades :: nat
  m_winning_trades :: nat
  m_losing_trades :: nat
  m_win_rate :: real
  m_gross_profit :: npfloat
  m_gross_loss :: npfloat
  m_net_profit :: npfloat
  m_profit_factor :: npfloat
  m_max_drawdown :: npfloat
  m_final_equity :: npfloat
  m_avg_trade_duration :: npfloat

definition closed_where :: "(real \<Rightarrow> bool) \<Rightarrow> event list \<Rightarrow> event list" where
  "closed_where P trades_df =
     filter (\<lambda>e. ev_action e = ''close'' \<and> (case ev_pnl e of None \<Rightarrow> False | Some p \<Rightarrow> P p))
       trades_df"

definition calculate :: "event list \<Rightarrow> npfloat \<Rightarrow> error + metrics option" where
  "calculate trade_history' final_equity =
     (if trade_history' = [] then Inr None
      else
        (let trades_df = trade_history';
             total_trades = length (filter (\<lambda>e. ev_action e = ''close'') trades_df);
             winning_trades = length (closed_where (\<lambda>p. p > 0) trades_df);
             losing_trades = length (closed_where (\<lambda>p. p < 0) trades_df);
             gross_profit = to_float (sum_list (pnl_where (\<lambda>p. p > 0) trades_df));
             gross_loss = np_abs (to_float (sum_list (pnl_where (\<lambda>p. p < 0) trades_df)));
             net_profit = float_sub gross_profit gross_loss;
             win_rate = (if total_trades > 0 then real winning_trades / real total_trades
                         else 0);
             profit_factor = (if gross_loss \<noteq> Finite 0
                              then float_divide gross_profit gross_loss else PosInf);
             equity_curve' = map ev_equity trades_df;
             max_drawdown = calculate_max_drawdown_pa equity_curve'
         in case calculate_avg_trade_duration trades_df of
              Inl e \<Rightarrow> Inl e
            | Inr avg_trade_duration \<Rightarrow>
               (case calculate_profit_factor trades_df of
                  Inl e \<Rightarrow> Inl e
                | Inr profit_factor \<Rightarrow>
                    Inr (Some
                      \<lparr>m_total_trades = total_trades, m_winning_trades = winning_trades,
                       m_losing_trades = losing_trades, m_win_rate = win_rate,
                       m_gross_profit = gross_profit, m_gross_loss = gross_loss,
                       m_net_profit = net_profit, m_profit_factor = profit_factor,
                       m_max_drawdown = max_drawdown, m_final_equity = final_equity,
                       m_avg_trade_duration = avg_trade_duration\<rparr>))))"

section \<open>Trading costs (backtester/costs.py)\<close>

datatype trading_cost = CommissionCost real | SpreadCost real real | SlippageCost real

fun cost_calculate :: "trading_cost \<Rightarrow> real \<Rightarrow> real" where
  "cost_calculate (CommissionCost rate) trade_value = trade_value * rate"
| "cost_calculate (SpreadCost spread_points point_value) trade_value =
     spread_points * point_value"
| "cost_calculate (SlippageCost slippage_pips) trade_value =
     trade_value * (slippage_pips / 10000)"

definition calculate_total_cost :: "trading_cost list \<Rightarrow> real \<Rightarrow> real" where
  "calculate_total_cost costs trade_value =
     sum_list (map (\<lambda>cost. cost_calculate cost trade_value) costs)"

section \<open>BacktestEngine (backtester/engine.py, backtester/vector_engine.py)\<close>

text \<open>
  The configuration keys the engine reads. The keys read with \<open>get\<close> and the keys of
  \<open>trading_costs\<close> are optional; the dict \<open>indicators\<close> receives the parameters.
\<close>

record engine_config =
  ec_initial_capital :: "real option"
  ec_max_open_trades :: "int option"
  ec_risk_percentage :: real
  ec_stop_loss_multiplier :: real
  ec_take_profit_multiplier :: real
  ec_commission_rate :: "real option"
  ec_spread_points :: "real option"
  ec_point_value :: "real option"
  ec_slippage_pips :: "real option"
  ec_indicators :: "(string \<times> real) list"

definition initialize_costs :: "engine_config \<Rightarrow> trading_cost list" where
  "initialize_costs cfg =
     (case ec_commission_rate cfg of None \<Rightarrow> [] | Some r \<Rightarrow> [CommissionCost r]) @
     (case (ec_spread_points cfg, ec_point_value cfg) of
        (Some sp, Some pv) \<Rightarrow> [SpreadCost sp pv] | _ \<Rightarrow> []) @
     (case ec_slippage_pips cfg of None \<Rightarrow> [] | Some sl \<Rightarrow> [SlippageCost sl])"

text \<open>The dict of signals a strategy returns; an empty or missing dict is \<open>None\<close>.\<close>

record signal =
  sg_symbol :: string
  sg_direction :: string
  sg_price :: real
  sg_volume :: real

text \<open>
  An instance of a strategy class, as far as the engine calls it: \<open>initialize\<close> with the
  configuration, \<open>on_data\<close> with the rows up to the current one, \<open>generate_signals\<close>. The
  instance keeps the configuration and the last data it was given, so each method is a
  function of these; each may raise.
\<close>

record strategy =
  st_initialize :: "engine_config \<Rightarrow> error option"
  st_on_data :: "engine_config \<Rightarrow> bar list \<Rightarrow> error option"
  st_generate_signals :: "engine_config \<Rightarrow> bar list \<Rightarrow> error + signal option"

text \<open>
  The engine object. The list \<open>positions\<close> holds references to the objects that the
  portfolio also holds: each entry carries the identity of its object (the number of
  positions the engine had created before it) and a copy of the object; the engine reads
  only the fields fixed at construction from its list.
\<close>

record engine =
  e_config :: engine_config
  e_portfolio :: portfolio
  e_positions :: "(nat \<times> position) list"
  e_history :: "event list"
  e_cost_manager :: "trading_cost list"
  e_created :: nat

definition BacktestEngine :: "engine_config \<Rightarrow> engine" where
  "BacktestEngine cfg =
     \<lparr>e_config = cfg,
      e_portfolio = Portfolio (case ec_initial_capital cfg of None \<Rightarrow> 10000 | Some c \<Rightarrow> c),
      e_positions = [], e_history = [], e_cost_manager = initialize_costs cfg,
      e_created = 0\<rparr>"

text \<open>
  The arithmetic of the engine is on finite numbers. The portfolio's equity is a float:
  where the engine reads an equity that has left the finite floats (after an overflow of
  the cash), the model stops with \<open>NonFinite\<close>, as it does at a zero divisor.
\<close>

definition engine_record_trade ::
  "engine \<Rightarrow> position \<Rightarrow> string \<Rightarrow> real option \<Rightarrow> real option \<Rightarrow> failure + engine"
  where
  "engine_record_trade self pos action exit_price' pnl' =
     (case equity (e_portfolio self) of
        Finite eq \<Rightarrow>
          Inr (self\<lparr>e_history := e_history self @
            [\<lparr>ev_timestamp = timestamp pos, ev_symbol = symbol pos,
              ev_direction = direction pos, ev_action = action,
              ev_price = (if action = ''open'' then Some (entry_price pos) else exit_price'),
              ev_size = size_pos pos,
              ev_pnl = (if action = ''close'' then pnl' else None),
              ev_equity = eq\<rparr>]\<rparr>)
      | _ \<Rightarrow> Inl NonFinite)"

definition calculate_trading_costs :: "engine \<Rightarrow> real \<Rightarrow> real" where
  "calculate_trading_costs self trade_value =
     calculate_total_cost (e_cost_manager self) trade_value"

definition can_open_position :: "engine \<Rightarrow> signal \<Rightarrow> bool" where
  "can_open_position self signals =
     (if \<not> has_sufficient_funds (e_portfolio self)
             (to_float (sg_price signals * sg_volume signals))
      then False
      else
        (let max_positions =
               (case ec_max_open_trades (e_config self) of None \<Rightarrow> 5 | Some n \<Rightarrow> n)
         in if int (length (e_positions self)) \<ge> max_positions then False else True))"

text \<open>
  \<open>_calculate_position_size\<close>. A zero divisor raises \<open>ZeroDivisionError\<close> for Python floats
  and gives a non-finite number for numpy scalars; the model stops with \<open>NonFinite\<close>.
\<close>

definition engine_calculate_position_size :: "engine \<Rightarrow> signal \<Rightarrow> failure + real" where
  "engine_calculate_position_size self signals =
     (case equity (e_portfolio self) of
        Finite eq \<Rightarrow>
          (let risk_per_trade = eq * ec_risk_percentage (e_config self);
               divisor = sg_price signals * ec_stop_loss_multiplier (e_config self)
           in if divisor = 0 then Inl NonFinite
              else Inr (min (sg_volume signals) (risk_per_trade / divisor)))
      | _ \<Rightarrow> Inl NonFinite)"

definition process_signals :: "engine \<Rightarrow> signal option \<Rightarrow> datetime \<Rightarrow> failure + engine" where
  "process_signals self signals ts =
     (case signals of
        None \<Rightarrow> Inr self
      | Some sg \<Rightarrow>
         if \<not> can_open_position self sg then Inr self
         else
           (case engine_calculate_position_size self sg of
              Inl f \<Rightarrow> Inl f
            | Inr position_size \<Rightarrow>
               if position_size \<le> 0 then Inr self
               else
                 (let trade_value = sg_price sg * position_size;
                      costs = calculate_trading_costs self trade_value
                  in if \<not> has_sufficient_funds (e_portfolio self)
                            (to_float (trade_value + costs))
                     then Inr self
                     else
                       (let pos = Position (sg_symbol sg) (sg_direction sg) (sg_price sg)
                                    position_size ts
                        in case add_position (e_portfolio self) pos of
                             Inl e \<Rightarrow> Inl (Raised e)
                           | Inr pf \<Rightarrow>
                              (let s1 = self\<lparr>e_portfolio := pf\<rparr>;
                                   s2 = s1\<lparr>e_positions := e_positions s1 @ [(e_created s1, pos)],
                                           e_created := Suc (e_created s1)\<rparr>
                               in engine_record_trade s2 pos ''open'' None None)))))"

definition should_close_position :: "engine \<Rightarrow> position \<Rightarrow> bar \<Rightarrow> bool" where
  "should_close_position self pos current_data =
     (if direction pos = ''long''
      then
        (let stop_loss = entry_price pos * (1 - ec_stop_loss_multiplier (e_config self));
             take_profit = entry_price pos * (1 + ec_take_profit_multiplier (e_config self))
         in b_low current_data \<le> stop_loss \<or> b_high current_data \<ge> take_profit)
      else
        (let stop_loss = entry_price pos * (1 + ec_stop_loss_multiplier (e_config self));
             take_profit = entry_price pos * (1 - ec_take_profit_multiplier (e_config self))
         in b_high current_data \<ge> stop_loss \<or> b_low current_data \<le> take_profit))"

text \<open>\<open>list.remove\<close> of an object: the first entry with that identity goes.\<close>

fun remove_object :: "nat \<Rightarrow> (nat \<times> position) list \<Rightarrow> (nat \<times> position) list" where
  "remove_object oid [] = []"
| "remove_object oid (p # ps) = (if fst p = oid then ps else p # remove_object oid ps)"

text \<open>
  \<open>_close_position\<close>; every reading of the wall clock during a run is the argument \<open>now\<close>
  (it fills the exit timestamp, which nothing reads).
\<close>

definition close_position ::
  "engine \<Rightarrow> nat \<times> position \<Rightarrow> bar \<Rightarrow> datetime \<Rightarrow> failure + engine" where
  "close_position self ref current_data now =
     (let exit_price' = b_close current_data;
          (pos, pnl') = calculate_pnl (snd ref) exit_price';
          s1 = self\<lparr>e_portfolio := remove_position (e_portfolio self) pos exit_price' now\<rparr>;
          s2 = s1\<lparr>e_positions := remove_object (fst ref) (e_positions s1)\<rparr>
      in engine_record_trade s2 pos ''close'' (Some exit_price') (Some pnl'))"

text \<open>\<open>update_positions\<close> walks a copy of the list made before the loop.\<close>

fun update_positions_loop ::
  "engine \<Rightarrow> (nat \<times> position) list \<Rightarrow> bar \<Rightarrow> datetime \<Rightarrow> failure + engine" where
  "update_positions_loop self [] current_data now = Inr self"
| "update_positions_loop self (ref # refs) current_data now =
     (if should_close_position self (snd ref) current_data
      then
        (case close_position self ref current_data now of
           Inl f \<Rightarrow> Inl f
         | Inr s \<Rightarrow> update_positions_loop s refs current_data now)
      else update_positions_loop self refs current_data now)"

definition update_positions :: "engine \<Rightarrow> bar \<Rightarrow> datetime \<Rightarrow> failure + engine" where
  "update_positions self current_data now =
     update_positions_loop self (e_positions self) current_data now"

text \<open>
  \<open>VectorizedBacktestEngine.run\<close>: the loop over the rows, \<open>seen\<close> being the rows before the
  current one (\<open>data.loc[:timestamp]\<close> is \<open>seen\<close> and the current row), then the metrics of
  the engine's history.
\<close>

fun run_rows ::
  "strategy \<Rightarrow> datetime \<Rightarrow> bar list \<Rightarrow> engine \<Rightarrow> bar list \<Rightarrow> failure + engine" where
  "run_rows st now seen self [] = Inr self"
| "run_rows st now seen self (row # rows) =
     (case st_on_data st (e_config self) (seen @ [row]) of
        Some e \<Rightarrow> Inl (Raised e)
      | None \<Rightarrow>
         (case update_positions self row now of
            Inl f \<Rightarrow> Inl f
          | Inr s1 \<Rightarrow>
             (case st_generate_signals st (e_config s1) (seen @ [row]) of
                Inl e \<Rightarrow> Inl (Raised e)
              | Inr None \<Rightarrow> run_rows st now (seen @ [row]) s1 rows
              | Inr (Some sg) \<Rightarrow>
                  (case process_signals s1 (Some sg) (b_index row) of
                     Inl f \<Rightarrow> Inl f
                   | Inr s2 \<Rightarrow> run_rows st now (seen @ [row]) s2 rows))))"

definition vectorized_run ::
  "engine \<Rightarrow> strategy \<Rightarrow> bar list \<Rightarrow> datetime \<Rightarrow> failure + (engine \<times> metrics option)" where
  "vectorized_run self st data' now =
     (case st_initialize st (e_config self) of
        Some e \<Rightarrow> Inl (Raised e)
      | None \<Rightarrow>
         (case run_rows st now [] self data' of
            Inl f \<Rightarrow> Inl f
          | Inr s \<Rightarrow>
             (case calculate (e_history s) (equity (e_portfolio s)) of
                Inl e \<Rightarrow> Inl (Raised e)
              | Inr res \<Rightarrow> Inr (s, res))))"

section \<open>Optimizers (optimizer/base.py, optimizer/grid_search.py)\<close>

record evaluation =
  r_params :: "(string \<times> real) list"
  r_metrics :: "metrics option"
  r_score :: npfloat

record optimizer =
  strategy_class :: strategy
  param_space :: "(string \<times> real list) list"
  data :: "bar list"
  engine :: engine
  objective_func :: "metrics option \<Rightarrow> error + npfloat"
  results :: "evaluation list"

text \<open>\<open>BaseOptimizer.__init__\<close>\<close>

definition BaseOptimizer ::
  "strategy \<Rightarrow> (string \<times> real list) list \<Rightarrow> bar list \<Rightarrow> engine
     \<Rightarrow> (metrics option \<Rightarrow> error + npfloat) \<Rightarrow> optimizer" where
  "BaseOptimizer sc space d eng obj =
     \<lparr>strategy_class = sc, param_space = space, data = d, engine = eng,
      objective_func = obj, results = []\<rparr>"

text \<open>\<open>dict.update\<close>: the keys of the argument are assigned one after the other.\<close>

definition dict_update :: "('k \<times> 'v) list \<Rightarrow> ('k \<times> 'v) list \<Rightarrow> ('k \<times> 'v) list" where
  "dict_update d new = foldl (\<lambda>acc (k, v). AList.update k v acc) d new"

text \<open>
  \<open>BaseOptimizer.evaluate_params\<close>. The copy of the engine's configuration is shallow, so
  the update of \<open>indicators\<close> is an update of the engine's own configuration; the engine is
  the one object given to the optimizer. There is no exception handler: a failure of the
  run or of the objective function leaves the method.
\<close>

definition evaluate_params ::
  "optimizer \<Rightarrow> (string \<times> real) list \<Rightarrow> datetime \<Rightarrow> failure + (optimizer \<times> npfloat)" where
  "evaluate_params self params now =
     (let st = strategy_class self;
          cfg = e_config (engine self);
          eng = (engine self)\<lparr>e_config :=
                   cfg\<lparr>ec_indicators := dict_update (ec_indicators cfg) params\<rparr>\<rparr>
      in case vectorized_run eng st (data self) now of
           Inl f \<Rightarrow> Inl f
         | Inr (eng', res) \<Rightarrow>
            (case objective_func self res of
               Inl e \<Rightarrow> Inl (Raised e)
             | Inr score \<Rightarrow>
                 Inr (self\<lparr>engine := eng',
                           results := results self @
                             [\<lparr>r_params = params, r_metrics = res, r_score = score\<rparr>]\<rparr>,
                      score)))"

text \<open>\<open>a > b\<close> on floats: false when either side is NaN.\<close>

fun np_greater :: "npfloat \<Rightarrow> npfloat \<Rightarrow> bool" where
  "np_greater NaN b = False"
| "np_greater a NaN = False"
| "np_greater a PosInf = False"
| "np_greater PosInf b = True"
| "np_greater NegInf b = False"
| "np_greater a NegInf = True"
| "np_greater (Finite x) (Finite y) = (x > y)"

text \<open>\<open>max(results, key=...)\<close>: the first entry that no later entry exceeds.\<close>

fun max_by_score :: "evaluation \<Rightarrow> evaluation list \<Rightarrow> evaluation" where
  "max_by_score best [] = best"
| "max_by_score best (r # rs) =
     max_by_score (if np_greater (r_score r) (r_score best) then r else best) rs"

definition get_best_params :: "optimizer \<Rightarrow> (string \<times> real) list" where
  "get_best_params self =
     (case results self of [] \<Rightarrow> [] | r # rs \<Rightarrow> r_params (max_by_score r rs))"

text \<open>\<open>GridSearchOptimizer.optimize\<close>: the loop over \<open>itertools.product\<close>.\<close>

fun evaluate_all ::
  "optimizer \<Rightarrow> (string \<times> real) list list \<Rightarrow> datetime \<Rightarrow> failure + optimizer" where
  "evaluate_all self [] now = Inr self"
| "evaluate_all self (params # rest) now =
     (case evaluate_params self params now of
        Inl f \<Rightarrow> Inl f
      | Inr (self', score) \<Rightarrow> evaluate_all self' rest now)"

definition grid_combinations :: "optimizer \<Rightarrow> (string \<times> real) list list" where
  "grid_combinations self =
     (let param_names = map fst (param_space self);
          param_values = map snd (param_space self)
      in map (\<lambda>values. zip param_names values) (product_lists param_values))"

definition optimize :: "optimizer \<Rightarrow> datetime \<Rightarrow> failure + (optimizer \<times> (string \<times> real) list)" where
  "optimize self now =
     (case evaluate_all self (grid_combinations self) now of
        Inl f \<Rightarrow> Inl f
      | Inr self' \<Rightarrow> Inr (self', get_best_params self'))"

section \<open>Inputs of the scenarios\<close>

text \<open>
  The stop-loss scenario of the specification: fixed size 1, stop multiplier 1.5, take
  multiplier 2, a commission of 7 per lot; a long signal on a row closing at 100 with ATR
  2, then a row with low 96 and high 105.
\<close>

definition scenario_config :: bt_config where
  "scenario_config =
     \<lparr>cfg_commission_per_lot = 7, cfg_allow_consecutive_trades = None,
      cfg_sizing_type = ''fixed'', cfg_fixed_volume = 1, cfg_risk_percentage = 1 / 100,
      cfg_stop_loss_multiplier = 3 / 2,
      cfg_stop_loss = \<lparr>rule_type = ''fixed'', rule_value = 3 / 2\<rparr>,
      cfg_take_profit = \<lparr>rule_type = ''fixed'', rule_value = 2\<rparr>\<rparr>"

definition scenario_entry_bar :: bar where
  "scenario_entry_bar =
     \<lparr>b_index = 0, b_close = 100, b_high = 101, b_low = 99, b_ATR = 2,
      b_long_signal = True, b_short_signal = False\<rparr>"

definition scenario_exit_bar :: bar where
  "scenario_exit_bar =
     \<lparr>b_index = 1, b_close = 102, b_high = 105, b_low = 96, b_ATR = 2,
      b_long_signal = False, b_short_signal = False\<rparr>"

definition scenario_open_state :: loop_state where
  "scenario_open_state =
     \<lparr>bt_self = Backtester scenario_config 10000, bt_position = Some ''long'',
      bt_entry_price = 100, bt_volume = 1, bt_stop_loss = 97, bt_take_profit = 104\<rparr>"

text \<open>The mirror image: a short position entered at 100 with the levels 103 and 96.\<close>

definition scenario_short_state :: loop_state where
  "scenario_short_state =
     \<lparr>bt_self = Backtester scenario_config 10000, bt_position = Some ''short'',
      bt_entry_price = 100, bt_volume = 1, bt_stop_loss = 103, bt_take_profit = 96\<rparr>"

text \<open>
  Two positions of size \<open>1e308\<close>, at the prices -10 and 10: the notional of each is
  beyond the finite floats.
\<close>

definition huge_position_below :: position where
  "huge_position_below = Position ''EURUSD'' ''long'' (- 10) (10 ^ 308) 0"

definition huge_position_above :: position where
  "huge_position_above = Position ''GBPUSD'' ''long'' 10 (10 ^ 308) 1"





text \<open>
  A grid search over one parameter, the traded volume \<open>lots\<close>. The strategy refuses a
  volume that is not positive when it is initialized, and buys at the close of the first
  row. The data has two rows; the second one reaches the take-profit level of a position
  bought on the first. The objective is the final equity, \<open>-inf\<close> when the metrics are
  empty.
\<close>

definition grid_config :: engine_config where
  "grid_config =
     \<lparr>ec_initial_capital = None, ec_max_open_trades = None, ec_risk_percentage = 1,
      ec_stop_loss_multiplier = 1 / 10, ec_take_profit_multiplier = 1 / 10,
      ec_commission_rate = None, ec_spread_points = None, ec_point_value = None,
      ec_slippage_pips = None, ec_indicators = []\<rparr>"

definition grid_data :: "bar list" where
  "grid_data =
     [\<lparr>b_index = 0, b_close = 100, b_high = 100, b_low = 100, b_ATR = 1,
       b_long_signal = False, b_short_signal = False\<rparr>,
      \<lparr>b_index = 1, b_close = 110, b_high = 120, b_low = 105, b_ATR = 1,
       b_long_signal = False, b_short_signal = False\<rparr>]"

definition lots :: "engine_config \<Rightarrow> real" where
  "lots cfg = (case map_of (ec_indicators cfg) ''lots'' of None \<Rightarrow> 0 | Some v \<Rightarrow> v)"

definition first_bar_strategy :: strategy where
  "first_bar_strategy =
     \<lparr>st_initialize =
        (\<lambda>cfg. if lots cfg \<le> 0 then Some (ValueError ''lots must be positive'') else None),
      st_on_data = (\<lambda>cfg rows. None),
      st_generate_signals =
        (\<lambda>cfg rows.
           if length rows = 1
           then Inr (Some \<lparr>sg_symbol = ''EURUSD'', sg_direction = ''long'',
                           sg_price = b_close (last rows), sg_volume = lots cfg\<rparr>)
           else Inr None)\<rparr>"

definition final_equity_objective :: "metrics option \<Rightarrow> error + npfloat" where
  "final_equity_objective res =
     (case res of None \<Rightarrow> Inr NegInf | Some m \<Rightarrow> Inr (m_final_equity m))"

definition grid_search :: "real list \<Rightarrow> optimizer" where
  "grid_search candidates =
     BaseOptimizer first_bar_strategy [(''lots'', candidates)] grid_data
       (BacktestEngine grid_config) final_equity_objective"

section \<open>Position: results\<close>

lemma calculate_pnl_fields:
  "fst (calculate_pnl self x) = self\<lparr>pnl := Some (pnl_value self x)\<rparr>"
  "snd (calculate_pnl self x) = pnl_value self x"
  by (simp_all add: calculate_pnl_def Let_def)

lemma close_fields:
  "close self x ts =
     self\<lparr>exit_price := Some x, exit_timestamp := Some ts, pnl := Some (pnl_value self x)\<rparr>"
  by (simp add: close_def calculate_pnl_fields pnl_value_def)

text \<open>
  C2, as stated: closing a closed position fails with \<open>InvalidStateError\<close> and does not
  overwrite the exit price, exit timestamp or pnl. The source has no guard: a long
  position closed at 110 and then at 90 ends with the second call's exit price, timestamp
  and pnl.
\<close>

theorem close_twice_overwrites:
  "exit_price (close (Position ''EURUSD'' ''long'' 100 1 0) 110 1) = Some 110 \<and>
   pnl (close (Position ''EURUSD'' ''long'' 100 1 0) 110 1) = Some 10 \<and>
   close (close (Position ''EURUSD'' ''long'' 100 1 0) 110 1) 90 2 =
     (Position ''EURUSD'' ''long'' 100 1 0)
       \<lparr>exit_price := Some 90, exit_timestamp := Some 2, pnl := Some (- 10)\<rparr>"
  by (simp add: close_fields pnl_value_def Position_def)

text \<open>
  C2, amended: \<open>close\<close> never fails; on a position that is already closed it overwrites
  exit price, exit timestamp and pnl, so that the result is the one of the second call
  alone.
\<close>

theorem close_twice_is_second_close:
  "close (close self x1 t1) x2 t2 = close self x2 t2 \<and>
   exit_price (close (close self x1 t1) x2 t2) = Some x2 \<and>
   exit_timestamp (close (close self x1 t1) x2 t2) = Some t2 \<and>
   pnl (close (close self x1 t1) x2 t2) = Some (pnl_value self x2)"
  by (simp add: close_fields pnl_value_def)

text \<open>
  C7, as stated: \<open>pnl\<close> is \<open>None\<close> until \<open>close\<close> is called, and \<open>calculate_pnl\<close> mutates
  no field. On a fresh long position entered at 100 with size 1, \<open>calculate_pnl(105)\<close>
  leaves \<open>pnl = 5\<close> in the open position.
\<close>

theorem calculate_pnl_sets_pnl:
  "pnl (Position ''EURUSD'' ''long'' 100 1 0) = None \<and>
   exit_price (fst (calculate_pnl (Position ''EURUSD'' ''long'' 100 1 0) 105)) = None \<and>
   pnl (fst (calculate_pnl (Position ''EURUSD'' ''long'' 100 1 0) 105)) = Some 5"
  by (simp add: calculate_pnl_fields pnl_value_def Position_def)

text \<open>
  C7, amended: \<open>pnl\<close> is \<open>None\<close> in a newly constructed position; \<open>calculate_pnl\<close> returns
  the directional P&L at the given price and stores it in \<open>pnl\<close>, leaving every other
  field as it was; the number returned does not depend on earlier calls, so an open
  position may be marked repeatedly.
\<close>

theorem calculate_pnl_frame:
  "pnl (Position sy di e z t) = None \<and>
   snd (calculate_pnl self x) =
     (if direction self = ''long'' then (x - entry_price self) * size_pos self
      else (entry_price self - x) * size_pos self) \<and>
   pnl (fst (calculate_pnl self x)) = Some (snd (calculate_pnl self x)) \<and>
   symbol (fst (calculate_pnl self x)) = symbol self \<and>
   direction (fst (calculate_pnl self x)) = direction self \<and>
   entry_price (fst (calculate_pnl self x)) = entry_price self \<and>
   size_pos (fst (calculate_pnl self x)) = size_pos self \<and>
   timestamp (fst (calculate_pnl self x)) = timestamp self \<and>
   exit_price (fst (calculate_pnl self x)) = exit_price self \<and>
   exit_timestamp (fst (calculate_pnl self x)) = exit_timestamp self \<and>
   calculate_pnl (fst (calculate_pnl self x)) y = calculate_pnl self y"
  by (simp add: calculate_pnl_def Let_def pnl_value_def Position_def)

section \<open>Floats: results\<close>

lemma max_float_pos: "0 < max_float"
  by (simp add: max_float_def)

lemma to_float_moderate: "\<bar>x\<bar> \<le> 10 ^ 15 \<Longrightarrow> to_float x = Finite x"
proof -
  assume a: "\<bar>x\<bar> \<le> 10 ^ 15"
  have "(10::real) ^ 15 \<le> max_float" by (simp add: max_float_def)
  with a have "\<bar>x\<bar> \<le> max_float" by linarith
  then show ?thesis by (auto simp: to_float_def)
qed

lemma to_float_zero: "to_float 0 = Finite 0"
  using max_float_pos by (simp add: to_float_def)

lemma in_range_to_float: "in_range (to_float x)"
  by (auto simp: in_range_def to_float_def)

lemma in_range_float_add: "in_range (float_add a b)"
  by (cases a; cases b) (simp_all add: in_range_def in_range_to_float[unfolded in_range_def])

lemma in_range_float_sub: "in_range (float_sub a b)"
  by (simp add: float_sub_def in_range_float_add)

lemma float_add_zero: "in_range a \<Longrightarrow> float_add a (Finite 0) = a"
  by (cases a) (auto simp: in_range_def to_float_def)

lemma float_eq_refl: "a \<noteq> NaN \<Longrightarrow> float_eq a a"
  by (cases a) simp_all

section \<open>Portfolio: results\<close>

lemma unrealized_at_entry:
  "sum_list (map (\<lambda>(k, r). snd r)
     (map (\<lambda>(k, pos). (k, get_unrealized_pnl pos (entry_price pos))) ps)) = (0::real)"
  for ps :: "(string \<times> position) list"
  by (induction ps) (auto simp: get_unrealized_pnl_def calculate_pnl_fields pnl_value_def)

lemma update_equity_equity:
  "equity (update_equity self) = float_add (cash self) (Finite 0)"
proof -
  have "equity (update_equity self) =
          float_add (cash self)
            (to_float (sum_list (map (\<lambda>(k, r). snd r)
               (map (\<lambda>(k, pos). (k, get_unrealized_pnl pos (entry_price pos)))
                  (positions self)))))"
    by (simp add: update_equity_def Let_def del: map_map)
  then show ?thesis by (simp only: unrealized_at_entry to_float_zero)
qed

lemma update_equity_keys: "map fst (positions (update_equity self)) = map fst (positions self)"
  by (simp add: update_equity_def Let_def case_prod_unfold comp_def)

lemma update_equity_positions:
  "positions (update_equity self) =
     map (\<lambda>(k, pos). (k, pos\<lparr>pnl := Some 0\<rparr>)) (positions self)"
  by (simp add: update_equity_def Let_def case_prod_unfold comp_def get_unrealized_pnl_def
      calculate_pnl_fields pnl_value_def)

lemma update_equity_other:
  "closed_positions (update_equity self) = closed_positions self"
  "trade_history (update_equity self) = trade_history self"
  "cash (update_equity self) = cash self"
  "initial_capital (update_equity self) = initial_capital self"
  by (simp_all add: update_equity_def Let_def)

lemma record_trade_other:
  "positions (record_trade self pos a) = positions self"
  "closed_positions (record_trade self pos a) = closed_positions self"
  "cash (record_trade self pos a) = cash self"
  "equity (record_trade self pos a) = equity self"
  by (simp_all add: record_trade_def)

lemma map_of_mark:
  "map_of (map (\<lambda>(k, pos). (k, f pos)) ps) k = map_option f (map_of ps k)"
  by (induction ps) auto

text \<open>
  What the bookkeeping keeps: the cash is a float of the range and the equity is the same
  float.
\<close>

lemma update_equity_same:
  "in_range (cash self) \<Longrightarrow>
   in_range (cash (update_equity self))
   \<and> equity (update_equity self) = cash (update_equity self)"
  by (simp add: update_equity_equity update_equity_other float_add_zero)

lemma add_position_same:
  assumes "add_position self pos = Inr self'"
  shows "in_range (cash self') \<and> equity self' = cash self'"
proof -
  let ?s2 = "self\<lparr>cash := float_sub (cash self) (get_value pos (entry_price pos)),
                   positions := AList.update (symbol pos) pos (positions self)\<rparr>"
  have eq: "self' = record_trade (update_equity ?s2) pos ''open''"
    using assms by (auto simp: add_position_def Let_def split: if_splits)
  have "in_range (cash ?s2)" by (simp add: in_range_float_sub)
  from update_equity_same[OF this] show ?thesis
    unfolding eq by (simp add: record_trade_other)
qed

lemma add_position_funded:
  assumes "has_sufficient_funds self (get_value pos (entry_price pos))"
  shows "\<exists>self'. add_position self pos = Inr self'
           \<and> cash self' = float_sub (cash self) (get_value pos (entry_price pos))
           \<and> equity self' = cash self'"
proof -
  let ?s2 = "self\<lparr>cash := float_sub (cash self) (get_value pos (entry_price pos)),
                   positions := AList.update (symbol pos) pos (positions self)\<rparr>"
  let ?r = "record_trade (update_equity ?s2) pos ''open''"
  have eq: "add_position self pos = Inr ?r"
    using assms by (simp add: add_position_def Let_def)
  from add_position_same[OF eq] have "equity ?r = cash ?r" by simp
  moreover have "cash ?r = float_sub (cash self) (get_value pos (entry_price pos))"
    by (simp add: record_trade_other update_equity_other)
  ultimately show ?thesis using eq by simp
qed

lemma remove_position_same:
  assumes "in_range (cash self)" "equity self = cash self"
  shows "in_range (cash (remove_position self pos x now))
       \<and> equity (remove_position self pos x now) = cash (remove_position self pos x now)"
proof (cases "symbol pos \<in> set (map fst (positions self))")
  case False
  with assms show ?thesis by (simp add: remove_position_def)
next
  case True
  let ?p = "close pos x now"
  let ?s3 = "self\<lparr>cash := float_add (cash self) (get_value ?p x),
                   positions := AList.delete (symbol pos) (positions self),
                   closed_positions := closed_positions self @ [?p]\<rparr>"
  have eq: "remove_position self pos x now = record_trade (update_equity ?s3) ?p ''close''"
    using True by (simp add: remove_position_def Let_def)
  have "in_range (cash ?s3)" by (simp add: in_range_float_add)
  from update_equity_same[OF this] show ?thesis
    unfolding eq by (simp add: record_trade_other)
qed

lemma apply_op_same:
  assumes "in_range (cash self)" "equity self = cash self"
  shows "in_range (cash (apply_op self op))
       \<and> equity (apply_op self op) = cash (apply_op self op)"
proof (cases op)
  case (AddPosition pos)
  show ?thesis
  proof (cases "add_position self pos")
    case (Inl e)
    with AddPosition assms show ?thesis by simp
  next
    case (Inr s')
    from add_position_same[OF Inr] AddPosition Inr show ?thesis by simp
  qed
next
  case (RemovePosition pos x now)
  with remove_position_same[OF assms] show ?thesis by simp
next
  case UpdateEquity
  with update_equity_same[OF assms(1)] show ?thesis by simp
qed

lemma foldl_apply_op_same:
  "in_range (cash self) \<Longrightarrow> equity self = cash self \<Longrightarrow>
   in_range (cash (foldl apply_op self ops))
   \<and> equity (foldl apply_op self ops) = cash (foldl apply_op self ops)"
proof (induction ops arbitrary: self)
  case Nil
  then show ?case by simp
next
  case (Cons op ops)
  from apply_op_same[OF Cons.prems] Cons.IH[of "apply_op self op"] show ?case by simp
qed

lemma Portfolio_same:
  "in_range (cash (Portfolio c))" "equity (Portfolio c) = cash (Portfolio c)"
  by (simp_all add: Portfolio_def in_range_to_float)

lemma add_position_keys:
  "add_position self pos = Inr self' \<Longrightarrow>
   map fst (positions self') = map fst (AList.update (symbol pos) pos (positions self))"
  by (auto simp: add_position_def Let_def record_trade_other update_equity_keys
      split: if_splits)

lemma remove_position_keys:
  "map fst (positions (remove_position self pos x now)) =
     (if symbol pos \<in> set (map fst (positions self))
      then map fst (AList.delete (symbol pos) (positions self))
      else map fst (positions self))"
  by (auto simp: remove_position_def Let_def record_trade_other update_equity_keys)

lemma apply_op_distinct:
  "distinct (map fst (positions self)) \<Longrightarrow>
   distinct (map fst (positions (apply_op self op)))"
proof (cases op)
  case (AddPosition pos)
  assume d: "distinct (map fst (positions self))"
  show ?thesis
  proof (cases "add_position self pos")
    case (Inl e)
    with AddPosition d show ?thesis by simp
  next
    case (Inr s')
    from add_position_keys[OF Inr] d have "distinct (map fst (positions s'))"
      by (simp add: distinct_update)
    with AddPosition Inr show ?thesis by simp
  qed
next
  case (RemovePosition pos x now)
  assume d: "distinct (map fst (positions self))"
  then show ?thesis using RemovePosition
    by (simp add: remove_position_keys distinct_delete del: set_map)
next
  case UpdateEquity
  assume "distinct (map fst (positions self))"
  then show ?thesis using UpdateEquity by (simp add: update_equity_keys)
qed

lemmas portfolio_defs =
  add_position_def remove_position_def Portfolio_def Position_def Let_def
  has_sufficient_funds_def get_value_def update_equity_def record_trade_def
  get_unrealized_pnl_def calculate_pnl_def pnl_value_def close_def float_sub_def
  to_float_moderate

text \<open>
  C1: after every mutating operation, equity is cash plus the unrealized P&L of the open
  positions at their latest prices. The code marks every open position at its own entry
  price. With capital 10000 and one long position entered at 100 with size 1, equity is
  9900 after \<open>add_position\<close>, while at a latest price of 105 the invariant asks for 9905.
\<close>

theorem update_equity_marks_at_entry_price:
  "(case add_position (Portfolio 10000) (Position ''EURUSD'' ''long'' 100 1 0) of
      Inl e \<Rightarrow> False
    | Inr p \<Rightarrow> cash p = Finite 9900 \<and> equity p = Finite 9900
               \<and> marked_to_market (\<lambda>k. 105) p = Finite 9905)"
  by (simp add: portfolio_defs marked_to_market_def)

text \<open>
  C10, as stated: after every operation, equity always exactly equals cash. The notional
  of a position is a float product and can overflow. Two positions of size \<open>1e308\<close>, at
  the prices -10 and 10, have the margins \<open>-inf\<close> and \<open>+inf\<close>: the first \<open>add_position\<close>
  leaves the cash at \<open>+inf\<close>, the second passes the funds test (\<open>inf >= inf\<close>) and leaves
  \<open>inf - inf\<close>, which is NaN, in cash and in equity; NaN is not equal to itself.
\<close>

theorem equity_and_cash_nan_after_overflow:
  "cash (foldl apply_op (Portfolio 10000)
           [AddPosition huge_position_below, AddPosition huge_position_above]) = NaN
   \<and> equity (foldl apply_op (Portfolio 10000)
           [AddPosition huge_position_below, AddPosition huge_position_above]) = NaN
   \<and> \<not> float_eq
        (equity (foldl apply_op (Portfolio 10000)
           [AddPosition huge_position_below, AddPosition huge_position_above]))
        (cash (foldl apply_op (Portfolio 10000)
           [AddPosition huge_position_below, AddPosition huge_position_above]))"
proof -
  let ?a = huge_position_below
  let ?b = huge_position_above
  have ma: "get_value ?a (entry_price ?a) = NegInf"
    by (simp add: get_value_def huge_position_below_def Position_def to_float_def
        max_float_def)
  have mb: "get_value ?b (entry_price ?b) = PosInf"
    by (simp add: get_value_def huge_position_above_def Position_def to_float_def
        max_float_def)
  have c0: "cash (Portfolio 10000) = Finite 10000"
    by (simp add: Portfolio_def to_float_moderate)
  have "has_sufficient_funds (Portfolio 10000) (get_value ?a (entry_price ?a))"
    by (simp add: has_sufficient_funds_def ma c0)
  from add_position_funded[OF this] obtain p1 where
    p1: "add_position (Portfolio 10000) ?a = Inr p1" "cash p1 = PosInf" "equity p1 = cash p1"
    by (auto simp: ma c0 float_sub_def)
  have "has_sufficient_funds p1 (get_value ?b (entry_price ?b))"
    by (simp add: has_sufficient_funds_def mb p1)
  from add_position_funded[OF this] obtain p2 where
    p2: "add_position p1 ?b = Inr p2" "cash p2 = NaN" "equity p2 = cash p2"
    by (auto simp: mb p1 float_sub_def)
  have "foldl apply_op (Portfolio 10000) [AddPosition ?a, AddPosition ?b] = p2"
    by (simp add: p1 p2)
  then show ?thesis by (simp add: p2)
qed

text \<open>
  C10, amended: starting from a new portfolio, after every sequence of \<open>add_position\<close>,
  \<open>remove_position\<close> and \<open>update_equity\<close> calls with finite sizes and prices, equity
  equals cash whenever the cash is not NaN, in particular whenever it is finite, because
  the unrealized P&L of a position marked at its own entry price is zero.
\<close>

theorem equity_equals_cash_unless_nan:
  assumes "cash (foldl apply_op (Portfolio c) ops) \<noteq> NaN"
  shows "float_eq (equity (foldl apply_op (Portfolio c) ops))
                  (cash (foldl apply_op (Portfolio c) ops))
       \<and> snd (get_unrealized_pnl pos (entry_price pos)) = 0"
proof -
  have "equity (foldl apply_op (Portfolio c) ops) = cash (foldl apply_op (Portfolio c) ops)"
    using foldl_apply_op_same[OF Portfolio_same] by simp
  moreover have "snd (get_unrealized_pnl pos (entry_price pos)) = 0"
    by (simp add: get_unrealized_pnl_def calculate_pnl_fields pnl_value_def)
  ultimately show ?thesis using assms by (simp add: float_eq_refl)
qed

theorem equity_equals_cash_unless_nan_witness:
  "cash (foldl apply_op (Portfolio 10000)
      [AddPosition (Position ''EURUSD'' ''long'' 100 1 0),
       RemovePosition (Position ''EURUSD'' ''long'' 100 1 0) 110 5,
       UpdateEquity]) = Finite 10010
   \<and> equity (foldl apply_op (Portfolio 10000)
      [AddPosition (Position ''EURUSD'' ''long'' 100 1 0),
       RemovePosition (Position ''EURUSD'' ''long'' 100 1 0) 110 5,
       UpdateEquity]) = Finite 10010
   \<and> float_eq
       (equity (foldl apply_op (Portfolio 10000)
          [AddPosition (Position ''EURUSD'' ''long'' 100 1 0),
           RemovePosition (Position ''EURUSD'' ''long'' 100 1 0) 110 5,
           UpdateEquity]))
       (cash (foldl apply_op (Portfolio 10000)
          [AddPosition (Position ''EURUSD'' ''long'' 100 1 0),
           RemovePosition (Position ''EURUSD'' ''long'' 100 1 0) 110 5,
           UpdateEquity]))
   \<and> cash (foldl apply_op (Portfolio 10000) [AddPosition huge_position_below]) = PosInf
   \<and> float_eq
       (equity (foldl apply_op (Portfolio 10000) [AddPosition huge_position_below]))
       (cash (foldl apply_op (Portfolio 10000) [AddPosition huge_position_below]))"
proof -
  let ?ops = "[AddPosition (Position ''EURUSD'' ''long'' 100 1 0),
               RemovePosition (Position ''EURUSD'' ''long'' 100 1 0) 110 5,
               UpdateEquity]"
  have c: "cash (foldl apply_op (Portfolio 10000) ?ops) = Finite 10010"
    and e: "equity (foldl apply_op (Portfolio 10000) ?ops) = Finite 10010"
    by (simp_all add: portfolio_defs)
  from c have h: "cash (foldl apply_op (Portfolio 10000) ?ops) \<noteq> NaN" by simp
  let ?a = huge_position_below
  have ma: "get_value ?a (entry_price ?a) = NegInf"
    by (simp add: get_value_def huge_position_below_def Position_def to_float_def
        max_float_def)
  have c0: "cash (Portfolio 10000) = Finite 10000"
    by (simp add: Portfolio_def to_float_moderate)
  have "has_sufficient_funds (Portfolio 10000) (get_value ?a (entry_price ?a))"
    by (simp add: has_sufficient_funds_def ma c0)
  from add_position_funded[OF this] obtain p1 where
    p1: "add_position (Portfolio 10000) ?a = Inr p1" "cash p1 = PosInf"
    by (auto simp: ma c0 float_sub_def)
  have c': "cash (foldl apply_op (Portfolio 10000) [AddPosition ?a]) = PosInf"
    by (simp add: p1)
  then have h': "cash (foldl apply_op (Portfolio 10000) [AddPosition ?a]) \<noteq> NaN" by simp
  from equity_equals_cash_unless_nan[OF h] equity_equals_cash_unless_nan[OF h'] c e c'
  show ?thesis by simp
qed

text \<open>
  C3, as stated: \<open>add_position\<close> on a symbol that already has an open position fails
  with \<open>DuplicatePositionError\<close> and does not replace that position. In the source the
  second call succeeds, debits cash again and the dict holds the new position only; the
  first one is not moved to the closed log.
\<close>

theorem add_position_duplicate_symbol_replaces:
  "(case add_position (Portfolio 10000) (Position ''EURUSD'' ''long'' 100 1 0) of
      Inl e \<Rightarrow> False
    | Inr p1 \<Rightarrow>
       (case add_position p1 (Position ''EURUSD'' ''short'' 50 2 5) of
          Inl e \<Rightarrow> False
        | Inr p2 \<Rightarrow>
            positions p2 =
              [(''EURUSD'', (Position ''EURUSD'' ''short'' 50 2 5)\<lparr>pnl := Some 0\<rparr>)]
            \<and> closed_positions p2 = [] \<and> cash p2 = Finite 9800))"
  by (simp add: portfolio_defs)

text \<open>
  C3, amended: when the symbol of the new position already has an open position and cash
  covers the margin, \<open>add_position\<close> succeeds: it debits the margin and the map then
  holds the new position under that symbol in place of the old one, which is not moved
  to the closed log. The map keeps one entry per symbol, here and under every other
  operation.
\<close>

theorem add_position_occupied_symbol:
  assumes funds: "has_sufficient_funds self (get_value pos (entry_price pos))"
    and occupied: "map_of (positions self) (symbol pos) = Some old"
    and d: "distinct (map fst (positions self))"
  shows "\<exists>self'. add_position self pos = Inr self'
           \<and> map_of (positions self') (symbol pos) = Some (pos\<lparr>pnl := Some 0\<rparr>)
           \<and> map fst (positions self') = map fst (positions self)
           \<and> closed_positions self' = closed_positions self
           \<and> cash self' = float_sub (cash self) (get_value pos (entry_price pos))
           \<and> distinct (map fst (positions (apply_op self op)))"
proof -
  let ?m = "get_value pos (entry_price pos)"
  let ?s2 = "self\<lparr>cash := float_sub (cash self) ?m,
                   positions := AList.update (symbol pos) pos (positions self)\<rparr>"
  let ?r = "record_trade (update_equity ?s2) pos ''open''"
  have eq: "add_position self pos = Inr ?r"
    using funds by (simp add: add_position_def Let_def)
  have k: "symbol pos \<in> set (map fst (positions self))"
    using occupied by (metis map_of_eq_None_iff option.distinct(1) set_map)
  have keys: "map fst (AList.update (symbol pos) pos (positions self)) = map fst (positions self)"
    using k by (simp add: update_keys del: set_map)
  have a: "map_of (positions ?r) (symbol pos) = Some (pos\<lparr>pnl := Some 0\<rparr>)"
    by (simp add: record_trade_other update_equity_positions map_of_mark update_conv')
  have b: "map fst (positions ?r) = map fst (positions self)"
    using keys by (simp add: record_trade_other update_equity_keys)
  have c: "closed_positions ?r = closed_positions self" "cash ?r = float_sub (cash self) ?m"
    by (simp_all add: record_trade_other update_equity_other)
  from a b c eq apply_op_distinct[OF d] show ?thesis by simp
qed

theorem add_position_occupied_symbol_witness:
  "has_sufficient_funds
     \<lparr>initial_capital = 10000, cash = Finite 9900, equity = Finite 9900,
      positions = [(''EURUSD'', (Position ''EURUSD'' ''long'' 100 1 0)\<lparr>pnl := Some 0\<rparr>)],
      closed_positions = [], trade_history = []\<rparr>
     (get_value (Position ''EURUSD'' ''short'' 50 2 5)
        (entry_price (Position ''EURUSD'' ''short'' 50 2 5)))
   \<and> (\<exists>self'.
        add_position
          \<lparr>initial_capital = 10000, cash = Finite 9900, equity = Finite 9900,
           positions = [(''EURUSD'', (Position ''EURUSD'' ''long'' 100 1 0)\<lparr>pnl := Some 0\<rparr>)],
           closed_positions = [], trade_history = []\<rparr>
          (Position ''EURUSD'' ''short'' 50 2 5) = Inr self'
        \<and> map_of (positions self') ''EURUSD''
            = Some ((Position ''EURUSD'' ''short'' 50 2 5)\<lparr>pnl := Some 0\<rparr>)
        \<and> cash self' = Finite 9800)"
proof -
  let ?p = "\<lparr>initial_capital = 10000, cash = Finite 9900, equity = Finite 9900,
      positions = [(''EURUSD'', (Position ''EURUSD'' ''long'' 100 1 0)\<lparr>pnl := Some 0\<rparr>)],
      closed_positions = [], trade_history = []\<rparr>"
  let ?q = "Position ''EURUSD'' ''short'' 50 2 5"
  have m: "get_value ?q (entry_price ?q) = Finite 100"
    by (simp add: get_value_def Position_def to_float_moderate)
  have h1: "has_sufficient_funds ?p (get_value ?q (entry_price ?q))"
    unfolding m by (simp add: has_sufficient_funds_def)
  have h2: "map_of (positions ?p) (symbol ?q)
              = Some ((Position ''EURUSD'' ''long'' 100 1 0)\<lparr>pnl := Some 0\<rparr>)"
    by (simp add: Position_def)
  have h3: "distinct (map fst (positions ?p))"
    by simp
  have v: "symbol ?q = ''EURUSD''"
    "float_sub (cash ?p) (get_value ?q (entry_price ?q)) = Finite 9800"
    unfolding m by (simp_all add: Position_def float_sub_def to_float_moderate)
  from add_position_occupied_symbol[OF h1 h2 h3, of UpdateEquity] h1 v
  show ?thesis by auto
qed

section \<open>Backtester: results\<close>

lemma check_exit_stop:
  assumes "bt_position s = Some p"
    and "if p = ''long'' then b_low row \<le> bt_stop_loss s else b_high row \<ge> bt_stop_loss s"
  shows "bt_position (check_exit s row) = None"
    and "trades (bt_self (check_exit s row)) = trades (bt_self s) @
          [\<lparr>tr_type = (if p = ''long'' then ''long'' else ''short''),
            tr_entry = bt_entry_price s, tr_exit = bt_stop_loss s,
            tr_volume = bt_volume s,
            tr_pnl = (if p = ''long'' then bt_stop_loss s - bt_entry_price s
                      else bt_entry_price s - bt_stop_loss s) * bt_volume s * 100000,
            tr_commission = bt_volume s * commission_per_lot (bt_self s),
            tr_time = b_index row\<rparr>]"
  using assms
  by (simp_all add: check_exit_def close_trade_def Let_def calculate_commission_def
      split: if_splits)

lemma process_signal_trades:
  "process_signal s row = Inr s' \<Longrightarrow> trades (bt_self s') = trades (bt_self s)"
  by (auto simp: process_signal_def open_trade_def Let_def
      split: option.splits if_splits sum.splits prod.splits)

text \<open>
  C4, as stated: in the scenario the exit at 97 has pnl \<open>(97 - 100) * 1 = -3\<close>. The
  backtester multiplies every P&L by the lot size 100000: the trade recorded for the
  scenario has exit 97 and pnl \<open>-300000\<close>.
\<close>

theorem scenario_trade_pnl_per_lot:
  "(case run_backtest (Backtester scenario_config 10000)
           [scenario_entry_bar, scenario_exit_bar] of
      Inl e \<Rightarrow> False
    | Inr b \<Rightarrow>
        trades b =
          [\<lparr>tr_type = ''long'', tr_entry = 100, tr_exit = 97, tr_volume = 1,
            tr_pnl = - 300000, tr_commission = 7, tr_time = 1\<rparr>]
        \<and> tr_pnl (hd (trades b)) \<noteq> - 3)"
  by (simp add: run_backtest_def backtest_row_def check_exit_def process_signal_def
      open_trade_def close_trade_def calculate_position_size_def calculate_exit_prices_def
      calculate_commission_def Backtester_def scenario_config_def scenario_entry_bar_def
      scenario_exit_bar_def Let_def)

text \<open>
  C4, amended: for an open long position and a row whose low is at or below the stop-loss
  level, the trade is closed exactly at the stop-loss level, whatever the row's high and
  close are; for a short position the same holds when the row's high is at or above the
  stop-loss level. The recorded pnl is the price difference times the volume times the lot
  size 100000, before commission, and the rest of the row's processing records no other
  trade. In the scenario (entry 100, volume 1, ATR 2, multipliers 1.5 and 2) the levels
  are 97 and 104 and the row with low 96 and high 105 exits at 97 with pnl
  \<open>(97 - 100) * 1 * 100000 = -300000\<close>.
\<close>

theorem stop_loss_exit_priority:
  assumes "bt_position s = Some p"
    and "if p = ''long'' then b_low row \<le> bt_stop_loss s else b_high row \<ge> bt_stop_loss s"
  shows "bt_position (check_exit s row) = None
       \<and> trades (bt_self (check_exit s row)) = trades (bt_self s) @
          [\<lparr>tr_type = (if p = ''long'' then ''long'' else ''short''),
            tr_entry = bt_entry_price s, tr_exit = bt_stop_loss s,
            tr_volume = bt_volume s,
            tr_pnl = (if p = ''long'' then bt_stop_loss s - bt_entry_price s
                      else bt_entry_price s - bt_stop_loss s) * bt_volume s * 100000,
            tr_commission = bt_volume s * commission_per_lot (bt_self s),
            tr_time = b_index row\<rparr>]
       \<and> (\<forall>s'. backtest_row s row = Inr s' \<longrightarrow>
             trades (bt_self s') = trades (bt_self (check_exit s row)))"
  using check_exit_stop[OF assms] process_signal_trades
  by (simp add: backtest_row_def)

theorem stop_loss_exit_priority_witness:
  "backtest_rows
     \<lparr>bt_self = Backtester scenario_config 10000, bt_position = None, bt_entry_price = 0,
      bt_volume = 0, bt_stop_loss = 0, bt_take_profit = 0\<rparr> [scenario_entry_bar]
     = Inr scenario_open_state
   \<and> bt_position scenario_open_state = Some ''long''
   \<and> bt_stop_loss scenario_open_state = 97 \<and> bt_take_profit scenario_open_state = 104
   \<and> b_low scenario_exit_bar \<le> bt_stop_loss scenario_open_state
   \<and> b_high scenario_exit_bar \<ge> bt_take_profit scenario_open_state
   \<and> bt_position (check_exit scenario_open_state scenario_exit_bar) = None
   \<and> trades (bt_self (check_exit scenario_open_state scenario_exit_bar)) =
        [\<lparr>tr_type = ''long'', tr_entry = 100, tr_exit = 97, tr_volume = 1,
          tr_pnl = - 300000, tr_commission = 7, tr_time = 1\<rparr>]
   \<and> bt_position scenario_short_state = Some ''short''
   \<and> b_high scenario_exit_bar \<ge> bt_stop_loss scenario_short_state
   \<and> b_low scenario_exit_bar \<le> bt_take_profit scenario_short_state
   \<and> trades (bt_self (check_exit scenario_short_state scenario_exit_bar)) =
        [\<lparr>tr_type = ''short'', tr_entry = 100, tr_exit = 103, tr_volume = 1,
          tr_pnl = - 300000, tr_commission = 7, tr_time = 1\<rparr>]"
proof -
  have h1: "bt_position scenario_open_state = Some ''long''"
    by (simp add: scenario_open_state_def)
  have h2: "if ''long'' = ''long''
            then b_low scenario_exit_bar \<le> bt_stop_loss scenario_open_state
            else b_high scenario_exit_bar \<ge> bt_stop_loss scenario_open_state"
    by (simp add: scenario_open_state_def scenario_exit_bar_def)
  have k1: "bt_position scenario_short_state = Some ''short''"
    by (simp add: scenario_short_state_def)
  have k2: "if ''short'' = ''long''
            then b_low scenario_exit_bar \<le> bt_stop_loss scenario_short_state
            else b_high scenario_exit_bar \<ge> bt_stop_loss scenario_short_state"
    by (simp add: scenario_short_state_def scenario_exit_bar_def)
  have run: "backtest_rows
     \<lparr>bt_self = Backtester scenario_config 10000, bt_position = None, bt_entry_price = 0,
      bt_volume = 0, bt_stop_loss = 0, bt_take_profit = 0\<rparr> [scenario_entry_bar]
     = Inr scenario_open_state"
    by (simp add: backtest_row_def check_exit_def process_signal_def open_trade_def
        calculate_position_size_def calculate_exit_prices_def Backtester_def
        scenario_config_def scenario_entry_bar_def scenario_open_state_def Let_def)
  have vals: "bt_stop_loss scenario_open_state = 97" "bt_take_profit scenario_open_state = 104"
    "bt_entry_price scenario_open_state = 100" "bt_volume scenario_open_state = 1"
    "trades (bt_self scenario_open_state) = []"
    "commission_per_lot (bt_self scenario_open_state) = 7"
    "b_low scenario_exit_bar = 96" "b_high scenario_exit_bar = 105"
    "b_index scenario_exit_bar = 1"
    by (simp_all add: scenario_open_state_def scenario_exit_bar_def Backtester_def
        scenario_config_def)
  have vals': "bt_stop_loss scenario_short_state = 103"
    "bt_take_profit scenario_short_state = 96"
    "bt_entry_price scenario_short_state = 100" "bt_volume scenario_short_state = 1"
    "trades (bt_self scenario_short_state) = []"
    "commission_per_lot (bt_self scenario_short_state) = 7"
    by (simp_all add: scenario_short_state_def Backtester_def scenario_config_def)
  have long: "bt_position (check_exit scenario_open_state scenario_exit_bar) = None
     \<and> trades (bt_self (check_exit scenario_open_state scenario_exit_bar)) =
        [\<lparr>tr_type = ''long'', tr_entry = 100, tr_exit = 97, tr_volume = 1,
          tr_pnl = - 300000, tr_commission = 7, tr_time = 1\<rparr>]"
    using stop_loss_exit_priority[OF h1 h2] vals by simp
  have short: "trades (bt_self (check_exit scenario_short_state scenario_exit_bar)) =
        [\<lparr>tr_type = ''short'', tr_entry = 100, tr_exit = 103, tr_volume = 1,
          tr_pnl = - 300000, tr_commission = 7, tr_time = 1\<rparr>]"
    using stop_loss_exit_priority[OF k1 k2] vals vals' by simp
  from run h1 k1 vals vals' long short show ?thesis by simp
qed

section \<open>PerformanceAnalyzer: results\<close>











lemma length_cummax_from: "length (cummax_from m xs) = length xs"
  by (induction xs arbitrary: m) auto

lemma length_cummax: "length (cummax xs) = length xs"
  by (cases xs) (auto simp: length_cummax_from)

lemma Max_insert_max:
  "finite S \<Longrightarrow> Max (insert (max a b) S) = Max (insert a (insert b S))"
  for a b :: real
  by (cases "S = {}") (simp_all add: max.assoc)

lemma cummax_from_nth:
  "i < length xs \<Longrightarrow> cummax_from m xs ! i = Max (insert m (set (take (Suc i) xs)))"
proof (induction xs arbitrary: m i)
  case Nil
  then show ?case by simp
next
  case (Cons x xs)
  show ?case
  proof (cases i)
    case 0
    then show ?thesis by (simp add: max.commute)
  next
    case (Suc j)
    with Cons.prems have j: "j < length xs" by simp
    have "cummax_from m (x # xs) ! i = Max (insert (max m x) (set (take (Suc j) xs)))"
      using Suc Cons.IH[OF j] by simp
    also have "\<dots> = Max (insert m (insert x (set (take (Suc j) xs))))"
      by (rule Max_insert_max) simp
    finally show ?thesis using Suc by simp
  qed
qed

lemma cummax_nth:
  "i < length xs \<Longrightarrow> cummax xs ! i = Max (set (take (Suc i) xs))"
proof (cases xs)
  case Nil
  assume "i < length xs"
  with Nil show ?thesis by simp
next
  case (Cons x ys)
  assume i: "i < length xs"
  show ?thesis
  proof (cases i)
    case 0
    with Cons show ?thesis by simp
  next
    case (Suc j)
    with i Cons have "j < length ys" by simp
    from cummax_from_nth[OF this, of x] Suc Cons show ?thesis by simp
  qed
qed

lemma series_min_Finite:
  "series_min (map Finite rs) = (if rs = [] then NaN else Finite (Min (set rs)))"
proof (induction rs)
  case Nil
  then show ?case by simp
next
  case (Cons r rs)
  show ?case
  proof (cases "rs = []")
    case True
    then show ?thesis by simp
  next
    case False
    with Cons show ?thesis by (simp add: min.commute)
  qed
qed

lemma drawdown_series_Finite:
  assumes "curve \<noteq> []" "hd curve > 0"
  shows "drawdown_series curve =
     map Finite (map (\<lambda>i. (curve ! i - Max (set (take (Suc i) curve)))
                            / Max (set (take (Suc i) curve))) [0..<length curve])"
    (is "_ = ?rhs")
proof (rule nth_equalityI)
  show "length (drawdown_series curve) = length ?rhs"
    by (simp add: drawdown_series_def length_cummax)
next
  fix i assume "i < length (drawdown_series curve)"
  then have i: "i < length curve" by (simp add: drawdown_series_def length_cummax)
  let ?m = "Max (set (take (Suc i) curve))"
  have "hd curve \<in> set (take (Suc i) curve)"
    using assms(1) by (cases curve) auto
  then have "hd curve \<le> ?m" by simp
  with assms(2) have m: "?m \<noteq> 0" by linarith
  show "drawdown_series curve ! i = ?rhs ! i"
    using i m by (simp add: drawdown_series_def length_cummax cummax_nth np_divide_def)
qed

lemma Max_prefix_sorted:
  assumes "sorted xs" "i < length xs"
  shows "Max (set (take (Suc i) xs)) = xs ! i"
proof (rule Max_eqI)
  show "finite (set (take (Suc i) xs))" by simp
next
  fix y assume "y \<in> set (take (Suc i) xs)"
  then obtain j where j: "j < length (take (Suc i) xs)" "y = take (Suc i) xs ! j"
    by (auto simp: in_set_conv_nth)
  then have "j \<le> i" "y = xs ! j" by auto
  with assms show "y \<le> xs ! i" by (simp add: sorted_nth_mono)
next
  have "take (Suc i) xs ! i = xs ! i" by simp
  moreover have "i < length (take (Suc i) xs)" using assms(2) by simp
  ultimately show "xs ! i \<in> set (take (Suc i) xs)" by (metis nth_mem)
qed

text \<open>
  C6, as stated: for every equity sequence the reported drawdown is a magnitude in
  \<open>[0, 1]\<close>. A sequence that falls below zero gives more than 1 (\<open>[100, -50]\<close> gives 1.5),
  and \<open>Backtester.calculate_max_drawdown\<close> returns the signed minimum: the sequence
  \<open>[100, 110, 90, 120]\<close> gives \<open>-2/11\<close> there.
\<close>

theorem max_drawdown_outside_unit_interval:
  "calculate_max_drawdown_pa [100, - 50] = Finite (3 / 2)
   \<and> calculate_max_drawdown
        ((Backtester scenario_config 10000)\<lparr>equity_curve := [100, 110, 90, 120]\<rparr>)
       = Finite (- (2 / 11))"
  by (simp add: calculate_max_drawdown_pa_def calculate_max_drawdown_def drawdown_series_def
      np_divide_def Backtester_def)

text \<open>
  C6, amended: for every non-empty equity sequence that starts above zero and never falls
  below zero, the max drawdown reported by \<open>PerformanceAnalyzer._calculate_max_drawdown\<close>
  is a magnitude in \<open>[0, 1]\<close>, is 0 when the sequence is non-decreasing, and is the maximum
  over time of \<open>(running_peak - equity) / running_peak\<close>, the running peak being the
  maximum of the samples so far; the sequence \<open>[100, 110, 90, 120]\<close> gives \<open>2/11\<close>, about
  0.1818.
\<close>

theorem max_drawdown_of_nonnegative_curve:
  assumes ne: "curve \<noteq> []" and pos: "hd curve > 0" and nonneg: "\<forall>e\<in>set curve. e \<ge> 0"
  shows "\<exists>d. calculate_max_drawdown_pa curve = Finite d \<and> 0 \<le> d \<and> d \<le> 1
           \<and> (sorted curve \<longrightarrow> d = 0)
           \<and> (\<forall>i<length curve.
                 (Max (set (take (Suc i) curve)) - curve ! i)
                   / Max (set (take (Suc i) curve)) \<le> d)
           \<and> (\<exists>i<length curve.
                 d = (Max (set (take (Suc i) curve)) - curve ! i)
                       / Max (set (take (Suc i) curve)))"
proof -
  define M where "M i = Max (set (take (Suc i) curve))" for i
  define f where "f i = (curve ! i - M i) / M i" for i
  define n where "n = length curve"
  define S where "S = f ` {0..<n}"
  have n0: "0 < n" using ne by (simp add: n_def)
  have fin: "finite S" and Sne: "S \<noteq> {}" using n0 by (auto simp: S_def)
  have Mpos: "M i > 0" for i
  proof -
    have "hd curve \<in> set (take (Suc i) curve)" using ne by (cases curve) auto
    then have "hd curve \<le> M i" by (simp add: M_def)
    with pos show ?thesis by linarith
  qed
  have Mge: "curve ! i \<le> M i" if "i < n" for i
  proof -
    have "take (Suc i) curve ! i = curve ! i" by simp
    moreover have "i < length (take (Suc i) curve)" using that by (simp add: n_def)
    ultimately have "curve ! i \<in> set (take (Suc i) curve)" by (metis nth_mem)
    then show ?thesis by (simp add: M_def)
  qed
  have f_le: "f i \<le> 0" if "i < n" for i
    using Mge[OF that] Mpos[of i] by (simp add: f_def divide_le_0_iff)
  have f_ge: "- 1 \<le> f i" if "i < n" for i
  proof -
    have "curve ! i \<ge> 0" using nonneg that by (simp add: n_def)
    then show ?thesis using Mpos[of i] by (simp add: f_def pos_le_divide_eq)
  qed
  have series: "drawdown_series curve = map Finite (map f [0..<n])"
    using drawdown_series_Finite[OF ne pos] by (simp add: f_def M_def n_def)
  have min: "series_min (drawdown_series curve) = Finite (Min S)"
  proof -
    have "series_min (map Finite (map f [0..<n])) = Finite (Min (set (map f [0..<n])))"
      using n0 by (subst series_min_Finite) simp
    then show ?thesis by (simp add: series S_def)
  qed
  have val: "calculate_max_drawdown_pa curve = Finite \<bar>Min S\<bar>"
    by (simp add: calculate_max_drawdown_pa_def min)
  have MinS: "Min S \<in> S" using fin Sne by (rule Min_in)
  then obtain k where k: "k < n" "Min S = f k" by (auto simp: S_def)
  have le0: "Min S \<le> 0" using k f_le by simp
  have ge1: "- 1 \<le> Min S" using k f_ge by simp
  have d: "\<bar>Min S\<bar> = - Min S" using le0 by simp
  have neg: "- f i = (M i - curve ! i) / M i" for i
    by (simp add: f_def minus_divide_left)
  have bound: "(M i - curve ! i) / M i \<le> - Min S" if "i < n" for i
  proof -
    have "f i \<in> S" using that by (simp add: S_def)
    then have "Min S \<le> f i" using fin by simp
    then show ?thesis using neg[of i] by linarith
  qed
  have attained: "\<exists>i<n. - Min S = (M i - curve ! i) / M i"
    using k neg[of k] by auto
  have mono: "- Min S = 0" if "sorted curve"
  proof -
    have "f i = 0" if "i < n" for i
      using Max_prefix_sorted[OF \<open>sorted curve\<close>, of i] that by (simp add: f_def M_def n_def)
    then show ?thesis using k by simp
  qed
  show ?thesis
    unfolding val d using le0 ge1 mono bound attained
    by (auto simp: M_def n_def)
qed

theorem max_drawdown_of_nonnegative_curve_witness:
  "[100, 110, 90, 120] \<noteq> ([] :: real list)
   \<and> hd [100, 110, 90, 120] > (0 :: real)
   \<and> list_all (\<lambda>e. e \<ge> 0) [100, 110, 90, 120 :: real]
   \<and> (\<exists>d. calculate_max_drawdown_pa [100, 110, 90, 120] = Finite d \<and> 0 \<le> d \<and> d \<le> 1)
   \<and> calculate_max_drawdown_pa [100, 110, 90, 120] = Finite (2 / 11)
   \<and> (1818 / 10000 :: real) < 2 / 11 \<and> (2 / 11 :: real) < 1819 / 10000
   \<and> (\<exists>d. calculate_max_drawdown_pa [100, 110, 120] = Finite d \<and> d = 0)"
proof -
  have h1: "[100, 110, 90, 120] \<noteq> ([] :: real list)" by simp
  have h2: "hd [100, 110, 90, 120] > (0 :: real)" by simp
  have h3: "\<forall>e\<in>set [100, 110, 90, 120 :: real]. e \<ge> 0" by simp
  have g1: "[100, 110, 120] \<noteq> ([] :: real list)" by simp
  have g2: "hd [100, 110, 120] > (0 :: real)" by simp
  have g3: "\<forall>e\<in>set [100, 110, 120 :: real]. e \<ge> 0" by simp
  have g4: "sorted [100, 110, 120 :: real]" by simp
  have v: "calculate_max_drawdown_pa [100, 110, 90, 120] = Finite (2 / 11)"
    by (simp add: calculate_max_drawdown_pa_def drawdown_series_def np_divide_def)
  have a: "\<exists>d. calculate_max_drawdown_pa [100, 110, 90, 120] = Finite d \<and> 0 \<le> d \<and> d \<le> 1"
    using max_drawdown_of_nonnegative_curve[OF h1 h2 h3] by blast
  have b: "\<exists>d. calculate_max_drawdown_pa [100, 110, 120] = Finite d \<and> d = 0"
    using max_drawdown_of_nonnegative_curve[OF g1 g2 g3] g4 by blast
  from h1 h2 v a b show ?thesis by simp
qed

section \<open>Optimizer: results\<close>

lemmas engine_defs =
  optimize_def grid_combinations_def evaluate_params_def vectorized_run_def
  process_signals_def update_positions_def close_position_def should_close_position_def
  can_open_position_def engine_calculate_position_size_def calculate_trading_costs_def
  calculate_total_cost_def engine_record_trade_def initialize_costs_def BacktestEngine_def
  BaseOptimizer_def dict_update_def get_best_params_def
  add_position_def remove_position_def update_equity_def record_trade_def Portfolio_def
  Position_def has_sufficient_funds_def get_value_def get_unrealized_pnl_def
  calculate_pnl_def pnl_value_def close_def
  calculate_def calculate_profit_factor_def calculate_avg_trade_duration_def pnl_where_def
  closed_where_def calculate_max_drawdown_pa_def drawdown_series_def np_divide_def
  float_sub_def to_float_moderate

lemmas grid_defs =
  grid_search_def grid_config_def grid_data_def first_bar_strategy_def lots_def
  final_equity_objective_def

lemma evaluate_all_failure:
  "evaluate_params self params now = Inl f \<Longrightarrow> evaluate_all self (params # rest) now = Inl f"
  by simp

lemma evaluate_params_failure:
  "vectorized_run
     ((engine self)\<lparr>e_config := (e_config (engine self))
        \<lparr>ec_indicators := dict_update (ec_indicators (e_config (engine self))) params\<rparr>\<rparr>)
     (strategy_class self) (data self) now = Inl f
   \<Longrightarrow> evaluate_params self params now = Inl f"
  by (simp add: evaluate_params_def Let_def)

text \<open>
  C8: an evaluation that raises is recorded with the score \<open>-inf\<close> and the search goes
  on. \<open>evaluate_params\<close> and \<open>GridSearchOptimizer.optimize\<close> have no exception handler:
  with the candidates 0, 1 and 2 for \<open>lots\<close>, the strategy raises for 0 and the exception
  leaves \<open>optimize\<close>; with the candidates 1, 0 and 2 the search ends at the second one.
\<close>

theorem grid_search_aborts_on_failed_evaluation:
  "optimize (grid_search [0, 1, 2]) now = Inl (Raised (ValueError ''lots must be positive''))
   \<and> optimize (grid_search [1, 0, 2]) now
       = Inl (Raised (ValueError ''lots must be positive''))"
  by (simp add: engine_defs grid_defs Let_def)

text \<open>
  C9: the score of a parameter set does not depend on the order of the evaluations. The
  optimizer runs every evaluation on the one engine it was given, whose portfolio and
  history are never reset: with the candidates in the order 1, 2 the scores are 10010 and
  10030, in the order 2, 1 they are 10020 and 10030, so \<open>lots = 1\<close> scores 10010 in one
  search and 10030 in the other.
\<close>

theorem grid_search_scores_depend_on_order:
  "(case optimize (grid_search [1, 2]) now of
      Inl f \<Rightarrow> False
    | Inr (s, best) \<Rightarrow>
        map (\<lambda>r. (r_params r, r_score r)) (results s) =
          [([(''lots'', 1)], Finite 10010), ([(''lots'', 2)], Finite 10030)])
   \<and> (case optimize (grid_search [2, 1]) now of
      Inl f \<Rightarrow> False
    | Inr (s, best) \<Rightarrow>
        map (\<lambda>r. (r_params r, r_score r)) (results s) =
          [([(''lots'', 2)], Finite 10020), ([(''lots'', 1)], Finite 10030)])"
  by (simp add: engine_defs grid_defs Let_def)

end
